theory Spec2Isabelle
  imports Complex_Main "HOL-Library.AList"
begin

section \<open>Numbers\<close>

text \<open>
  The bot computes with JavaScript numbers. Timestamps (\<^verbatim>\<open>Date.now()\<close>),
  lengths and counters are integers and are modelled as \<open>int\<close> and \<open>nat\<close>. Numbers
  read from the feed and from the configuration are finite and are modelled as
  rationals. Results of arithmetic that may divide by zero are values of \<open>jsnum\<close>:
  a finite number (idealised as a rational: no rounding, no overflow, a single
  zero), the two infinities, or NaN. The operations below follow the IEEE rules
  for the special values; every comparison with NaN is false.
\<close>

datatype jsnum = Num rat | PInf | NInf | NaN

fun js_neg :: "jsnum \<Rightarrow> jsnum" where
  "js_neg (Num a) = Num (- a)"
| "js_neg PInf = NInf"
| "js_neg NInf = PInf"
| "js_neg NaN = NaN"

fun js_add :: "jsnum \<Rightarrow> jsnum \<Rightarrow> jsnum" where
  "js_add (Num a) (Num b) = Num (a + b)"
| "js_add NaN y = NaN"
| "js_add x NaN = NaN"
| "js_add PInf NInf = NaN"
| "js_add NInf PInf = NaN"
| "js_add PInf y = PInf"
| "js_add x PInf = PInf"
| "js_add NInf y = NInf"
| "js_add x NInf = NInf"

definition js_sub :: "jsnum \<Rightarrow> jsnum \<Rightarrow> jsnum" where
  "js_sub x y = js_add x (js_neg y)"

fun js_mul :: "jsnum \<Rightarrow> jsnum \<Rightarrow> jsnum" where
  "js_mul (Num a) (Num b) = Num (a * b)"
| "js_mul NaN y = NaN"
| "js_mul x NaN = NaN"
| "js_mul PInf (Num b) = (if b = 0 then NaN else if 0 < b then PInf else NInf)"
| "js_mul NInf (Num b) = (if b = 0 then NaN else if 0 < b then NInf else PInf)"
| "js_mul (Num a) PInf = (if a = 0 then NaN else if 0 < a then PInf else NInf)"
| "js_mul (Num a) NInf = (if a = 0 then NaN else if 0 < a then NInf else PInf)"
| "js_mul PInf PInf = PInf"
| "js_mul NInf NInf = PInf"
| "js_mul PInf NInf = NInf"
| "js_mul NInf PInf = NInf"

fun js_div :: "jsnum \<Rightarrow> jsnum \<Rightarrow> jsnum" where
  "js_div (Num a) (Num b) =
     (if b = 0 then (if a = 0 then NaN else if 0 < a then PInf else NInf)
      else Num (a / b))"
| "js_div NaN y = NaN"
| "js_div x NaN = NaN"
| "js_div (Num a) PInf = Num 0"
| "js_div (Num a) NInf = Num 0"
| "js_div PInf (Num b) = (if 0 \<le> b then PInf else NInf)"
| "js_div NInf (Num b) = (if 0 \<le> b then NInf else PInf)"
| "js_div PInf PInf = NaN"
| "js_div PInf NInf = NaN"
| "js_div NInf PInf = NaN"
| "js_div NInf NInf = NaN"

text \<open>\<^verbatim>\<open>Math.floor\<close> and \<^verbatim>\<open>Math.abs\<close>.\<close>

fun js_floor :: "jsnum \<Rightarrow> jsnum" where
  "js_floor (Num a) = Num (of_int \<lfloor>a\<rfloor>)"
| "js_floor x = x"

fun js_abs :: "jsnum \<Rightarrow> jsnum" where
  "js_abs (Num a) = Num \<bar>a\<bar>"
| "js_abs NInf = PInf"
| "js_abs x = x"

fun js_lt :: "jsnum \<Rightarrow> jsnum \<Rightarrow> bool" where
  "js_lt (Num a) (Num b) = (a < b)"
| "js_lt NaN y = False"
| "js_lt x NaN = False"
| "js_lt x NInf = False"
| "js_lt NInf y = True"
| "js_lt PInf y = False"
| "js_lt x PInf = True"

definition js_le :: "jsnum \<Rightarrow> jsnum \<Rightarrow> bool" where
  "js_le x y = (js_lt x y \<or> (x = y \<and> x \<noteq> NaN))"

definition js_gt :: "jsnum \<Rightarrow> jsnum \<Rightarrow> bool" where
  "js_gt x y = js_lt y x"

definition js_ge :: "jsnum \<Rightarrow> jsnum \<Rightarrow> bool" where
  "js_ge x y = js_le y x"

text \<open>
  \<^verbatim>\<open>Math.max(...xs)\<close> and \<^verbatim>\<open>Math.min(...xs)\<close>: the neutral values are
  \<open>-Infinity\<close> and \<open>Infinity\<close>, and a NaN argument makes the result NaN.
\<close>

definition js_max2 :: "jsnum \<Rightarrow> jsnum \<Rightarrow> jsnum" where
  "js_max2 x y = (if x = NaN \<or> y = NaN then NaN else if js_lt x y then y else x)"

definition js_min2 :: "jsnum \<Rightarrow> jsnum \<Rightarrow> jsnum" where
  "js_min2 x y = (if x = NaN \<or> y = NaN then NaN else if js_lt y x then y else x)"

definition Math_max :: "jsnum list \<Rightarrow> jsnum" where
  "Math_max xs = foldl js_max2 NInf xs"

definition Math_min :: "jsnum list \<Rightarrow> jsnum" where
  "Math_min xs = foldl js_min2 PInf xs"

section \<open>Data model (types.ts and the interfaces of the bot)\<close>

datatype side = Yes | No

text \<open>
  A JavaScript \<^verbatim>\<open>Map\<close> keeps its keys unique and iterates in insertion order:
  it is modelled as an association list, written with \<open>AList.update\<close> (\<^verbatim>\<open>set\<close>:
  replaces in place or appends), \<open>AList.delete\<close> (\<^verbatim>\<open>delete\<close>) and \<open>map_of\<close>
  (\<^verbatim>\<open>get\<close>, \<^verbatim>\<open>has\<close>); \<^verbatim>\<open>size\<close> is the length.
\<close>

type_synonym ('k, 'v) js_map = "('k \<times> 'v) list"

record TradeUpdate =
  market_ticker :: string
  trade_id :: string
  price :: rat
  count :: rat
  yes_price :: rat
  no_price :: rat
  taker_side :: side
  created_time :: int

record MomentumMetrics =
  totalVolume :: rat
  tradeCount :: nat
  yesCount :: nat
  noCount :: nat
  directionalBias :: rat
  priceChange :: rat

text \<open>
  The configuration constants read from the environment at start-up. The profit
  target and the stop loss are \<^verbatim>\<open>null\<close> when not configured.
\<close>

record config =
  MOMENTUM_WINDOW_SECONDS :: int
  MOMENTUM_MIN_VOLUME :: int
  MOMENTUM_MIN_TRADES :: int
  MOMENTUM_MIN_DIRECTIONAL_BIAS :: rat
  POSITION_SIZE_DOLLARS :: rat
  MAX_OPEN_POSITIONS :: int
  PROFIT_TARGET :: "rat option"
  STOP_LOSS :: "rat option"
  MAX_POSITION_AGE_MS :: int
  LOSS_COOLDOWN_ENABLED :: bool
  WIN_COOLDOWN_ENABLED :: bool
  COOLDOWN_TIME_MS :: int
  PAPER_TRADE_ONLY :: bool

section \<open>Momentum window\<close>

text \<open>
  \<^verbatim>\<open>momentumTrades\<close> maps a ticker to its queue of \<open>(trade, timestamp)\<close> entries.
  \<open>addTradeToMomentum\<close> takes the value of \<^verbatim>\<open>Date.now()\<close> as \<open>now\<close>.
\<close>

type_synonym momentum_trades = "(string, (TradeUpdate \<times> int) list) js_map"

definition addTradeToMomentum ::
  "config \<Rightarrow> int \<Rightarrow> TradeUpdate \<Rightarrow> momentum_trades \<Rightarrow> momentum_trades" where
  "addTradeToMomentum cfg now trade mt =
     (let ticker = market_ticker trade;
          trades = (case map_of mt ticker of None \<Rightarrow> [] | Some ts \<Rightarrow> ts) @ [(trade, now)];
          windowMs = MOMENTUM_WINDOW_SECONDS cfg * 1000;
          cutoff = now - windowMs;
          filtered = filter (\<lambda>t. snd t > cutoff) trades
      in AList.update ticker filtered mt)"

text \<open>
  The loop of \<open>calculateMomentumMetrics\<close> keeps five accumulators:
  \<open>(totalVolume, yesCount, noCount, firstPrice, lastPrice)\<close>.
\<close>

type_synonym momentum_acc = "rat \<times> nat \<times> nat \<times> rat option \<times> rat option"

fun momentum_step :: "momentum_acc \<Rightarrow> TradeUpdate \<times> int \<Rightarrow> momentum_acc" where
  "momentum_step (vol, y, n, firstPrice, lastPrice) (trade, ts) =
     (vol + count trade,
      (if taker_side trade = Yes then y + 1 else y),
      (if taker_side trade = Yes then n else n + 1),
      (if firstPrice = None then Some (price trade) else firstPrice),
      Some (price trade))"

definition calculateMomentumMetrics ::
  "momentum_trades \<Rightarrow> string \<Rightarrow> MomentumMetrics option" where
  "calculateMomentumMetrics mt ticker =
     (case map_of mt ticker of
        None \<Rightarrow> None
      | Some trades \<Rightarrow>
          if length trades = 0 then None
          else
            (case foldl momentum_step (0, 0, 0, None, None) trades of
               (vol, y, n, firstPrice, lastPrice) \<Rightarrow>
                 Some \<lparr> totalVolume = vol,
                        tradeCount = length trades,
                        yesCount = y,
                        noCount = n,
                        directionalBias =
                          (if length trades > 0 then of_nat y / of_nat (length trades)
                           else 1 / 2),
                        priceChange =
                          (case (firstPrice, lastPrice) of
                             (Some f, Some l) \<Rightarrow> l - f
                           | _ \<Rightarrow> 0) \<rparr>))"

section \<open>Signal evaluation\<close>


section \<open>Position ledger\<close>

datatype exec_mode = Sync | Async

text \<open>
  \<open>lastDebugLogTime\<close> is the field the newer variant of \<open>checkPositions\<close> adds
  to the position object; the last three fields are set by live orders only. A
  field that is absent (\<^verbatim>\<open>undefined\<close>) is \<open>None\<close>.
\<close>

record Position =
  ticker :: string
  side :: side
  entryPrice :: rat
  contracts :: jsnum
  entryTime :: int
  entryTradeId :: string
  lastLoggedPnLPercent :: "jsnum option"
  lastDebugLogTime :: "int option"
  transactionSignature :: "string option"
  executionMode :: "exec_mode option"
  isFilled :: "bool option"

record TradeMetrics =
  volume :: rat
  trades :: nat
  bias :: rat
  priceChange :: rat

text \<open>
  The close reasons are template strings; each constructor stands for one template
  and carries the number the template formats:
  \<^item> \<open>ProfitTargetReached p\<close>: \<^verbatim>\<open>Profit target reached (${pnlPercent.toFixed(2)}%)\<close>
  \<^item> \<open>StopLossHit p\<close>: \<^verbatim>\<open>Stop loss hit (${pnlPercent.toFixed(2)}%)\<close>
  \<^item> \<open>ForceClosedNoPrice ms\<close>:
    \<^verbatim>\<open>Force closed - unable to fetch price data after ${(MAX_POSITION_AGE_MS / 1000).toFixed(0)}s\<close>
  \<^item> \<open>NoTokensFound r\<close>: \<^verbatim>\<open>${closeReason} (no tokens found - may not have filled)\<close>
  \<^item> \<open>Given s\<close>: the reason passed to \<open>closePositionManually\<close>.
\<close>

datatype reason =
    ProfitTargetReached jsnum
  | StopLossHit jsnum
  | ForceClosedNoPrice int
  | NoTokensFound reason
  | Given string

record ClosedTrade =
  ticker :: string
  side :: side
  entryPrice :: rat
  exitPrice :: jsnum
  entryTime :: int
  exitTime :: int
  duration :: rat
  pnl :: jsnum
  pnlPercent :: jsnum
  reason :: reason
  momentumMetrics :: "TradeMetrics option"

record Cooldown =
  timestamp :: int
  wasWin :: bool

record ledger =
  positions :: "(string, Position) js_map"
  positionMomentumMetrics :: "(string, MomentumMetrics) js_map"
  tickerCooldowns :: "(string, Cooldown) js_map"
  closedTrades :: "ClosedTrade list"

definition empty_ledger :: ledger where
  "empty_ledger =
     \<lparr> positions = [], positionMomentumMetrics = [], tickerCooldowns = [], closedTrades = [] \<rparr>"

text \<open>
  What the functions write to the console and to the two log files, one
  constructor per call site; the arguments are the values a claim refers to.
\<close>

datatype event =
    Warn_CannotOpenPosition string rat rat
  | Log_MomentumTriggered string string
  | File_MomentumSignal string string bool
  | Log_OpenedPaperPosition string
  | Log_OpenedPosition string
  | Error_CannotOpenReal string
  | Log_ExecutingRealTrade string
  | Log_RealPositionOpened string
  | Error_FailedRealTrade string
  | File_Trade ClosedTrade
  | Log_ForceClosed string
  | Warn_CannotFetchPrice string int
  | Log_PositionDebug string
  | Log_ClosedPaperPosition string
  | Log_ClosedPosition string
  | Log_WaitingForFill string
  | Error_CannotCloseReal string
  | Warn_NoOutcomeTokens string
  | Log_ClosingReal string
  | Log_RealPositionClosed string
  | Error_FailedCloseReal string
  | Log_PositionUpdate string jsnum jsnum
  | Log_ManuallyClosedPaper string
  | Log_ManuallyClosingReal string
  | Log_ManuallyClosedReal string

subsection \<open>Opening a position (newer variant)\<close>

text \<open>
  \<open>openPosition\<close> returns nothing; the model returns which \<^verbatim>\<open>return\<close> was
  taken, the ledger and the output. The function is \<^verbatim>\<open>async\<close>: in paper mode
  it runs to its end without suspending, in live mode it suspends at its awaits
  after the checks and before it stores the position. The model therefore has the
  part that runs before the first await (\<open>openPosition_checks\<close>) and the two
  parts that store the position (\<open>openPosition_paper\<close>, \<open>openPosition_live\<close>).
\<close>

datatype open_outcome =
    HasPosition
  | MaxPositions
  | InCooldown
  | ZeroContracts
  | MarketUnavailable
  | MintsUnavailable
  | OrderFailed
  | Opened

datatype checks = Reject open_outcome | Accept side rat jsnum

text \<open>The side, the entry price and the number of contracts, and the sizing check.\<close>

definition openPosition_sizing ::
  "config \<Rightarrow> TradeUpdate \<Rightarrow> MomentumMetrics \<Rightarrow> ledger \<Rightarrow> checks \<times> ledger \<times> event list" where
  "openPosition_sizing cfg trade metrics l =
     (let ticker = market_ticker trade;
          side = (if directionalBias metrics \<ge> 1 / 2 then Yes else No);
          entryPrice = (if side = Yes then yes_price trade else no_price trade);
          contracts = js_floor (js_div (Num (POSITION_SIZE_DOLLARS cfg * 100)) (Num entryPrice))
      in if js_le contracts (Num 0)
         then (Reject ZeroContracts, l,
               [Warn_CannotOpenPosition ticker entryPrice (POSITION_SIZE_DOLLARS cfg)])
         else (Accept side entryPrice contracts, l,
               [Log_MomentumTriggered ticker (trade_id trade)]))"

definition openPosition_checks ::
  "config \<Rightarrow> int \<Rightarrow> TradeUpdate \<Rightarrow> MomentumMetrics \<Rightarrow> ledger \<Rightarrow> checks \<times> ledger \<times> event list" where
  "openPosition_checks cfg now trade metrics l =
     (let ticker = market_ticker trade
      in if map_of (positions l) ticker \<noteq> None then (Reject HasPosition, l, [])
         else if int (length (positions l)) \<ge> MAX_OPEN_POSITIONS cfg
           then (Reject MaxPositions, l, [])
         else
           (case map_of (tickerCooldowns l) ticker of
              None \<Rightarrow> openPosition_sizing cfg trade metrics l
            | Some cooldown \<Rightarrow>
                (let cooldownAge = now - timestamp cooldown
                 in if cooldownAge < COOLDOWN_TIME_MS cfg then (Reject InCooldown, l, [])
                    else openPosition_sizing cfg trade metrics
                           (l\<lparr>tickerCooldowns := AList.delete ticker (tickerCooldowns l)\<rparr>))))"

definition openPosition_paper ::
  "int \<Rightarrow> TradeUpdate \<Rightarrow> MomentumMetrics \<Rightarrow> side \<Rightarrow> rat \<Rightarrow> jsnum \<Rightarrow> ledger
   \<Rightarrow> open_outcome \<times> ledger \<times> event list" where
  "openPosition_paper now trade metrics sd ep cn l =
     (let ticker = market_ticker trade;
          position = \<lparr> Position.ticker = ticker, side = sd, entryPrice = ep,
                       contracts = cn, entryTime = now,
                       entryTradeId = trade_id trade,
                       lastLoggedPnLPercent = None, lastDebugLogTime = None,
                       transactionSignature = None, executionMode = None,
                       isFilled = None \<rparr>
      in (Opened,
          l\<lparr>positions := AList.update ticker position (positions l),
            positionMomentumMetrics :=
              AList.update ticker metrics (positionMomentumMetrics l)\<rparr>,
          [File_MomentumSignal ticker (trade_id trade) True,
           Log_OpenedPaperPosition ticker]))"

text \<open>
  What the calls of the live path gave: \<open>fetchMarket\<close> gave no market,
  \<open>getOutcomeTokenMints\<close> gave none, a call threw, or \<open>executeBuyOrder\<close>
  returned a signature and an execution mode.
\<close>

datatype live_entry =
    EntryMarketUnavailable
  | EntryMintsUnavailable
  | EntryThrew
  | EntryOrdered string exec_mode

definition openPosition_live ::
  "int \<Rightarrow> live_entry \<Rightarrow> TradeUpdate \<Rightarrow> MomentumMetrics \<Rightarrow> side \<Rightarrow> rat \<Rightarrow> jsnum \<Rightarrow> ledger
   \<Rightarrow> open_outcome \<times> ledger \<times> event list" where
  "openPosition_live later ext trade metrics sd ep cn l =
     (let ticker = market_ticker trade
      in case ext of
           EntryMarketUnavailable \<Rightarrow> (MarketUnavailable, l, [Error_CannotOpenReal ticker])
         | EntryMintsUnavailable \<Rightarrow> (MintsUnavailable, l, [Error_CannotOpenReal ticker])
         | EntryThrew \<Rightarrow>
             (OrderFailed, l, [Log_ExecutingRealTrade ticker, Error_FailedRealTrade ticker])
         | EntryOrdered signature mode \<Rightarrow>
             (let position = \<lparr> Position.ticker = ticker, side = sd, entryPrice = ep,
                                contracts = cn, entryTime = later,
                                entryTradeId = trade_id trade,
                                lastLoggedPnLPercent = None, lastDebugLogTime = None,
                                transactionSignature = Some signature,
                                executionMode = Some mode,
                                isFilled = Some (mode = Sync) \<rparr>
              in (Opened,
                  l\<lparr>positions := AList.update ticker position (positions l),
                    positionMomentumMetrics :=
                      AList.update ticker metrics (positionMomentumMetrics l)\<rparr>,
                  [Log_ExecutingRealTrade ticker,
                   File_MomentumSignal ticker (trade_id trade) True,
                   Log_RealPositionOpened ticker])))"

text \<open>
  One call of \<open>openPosition\<close> that nothing interleaves with: \<open>now\<close> is the time
  of the call, \<open>later\<close> the time at which the buy order returned (live mode only).
\<close>

definition openPosition ::
  "config \<Rightarrow> int \<Rightarrow> int \<Rightarrow> live_entry \<Rightarrow> TradeUpdate \<Rightarrow> MomentumMetrics \<Rightarrow> ledger
   \<Rightarrow> open_outcome \<times> ledger \<times> event list" where
  "openPosition cfg now later ext trade metrics l =
     (case openPosition_checks cfg now trade metrics l of
        (Reject r, l1, ev) \<Rightarrow> (r, l1, ev)
      | (Accept sd ep cn, l1, ev) \<Rightarrow>
          (case (if PAPER_TRADE_ONLY cfg
                 then openPosition_paper now trade metrics sd ep cn l1
                 else openPosition_live later ext trade metrics sd ep cn l1) of
             (r, l2, ev2) \<Rightarrow> (r, l2, ev @ ev2)))"

text \<open>
  The callback that a live \<^verbatim>\<open>async\<close> order schedules: when the order status
  shows a fill it sets \<open>isFilled\<close> on the position object. A change of a position
  object reaches the ledger when the object is still the one stored under its
  ticker (objects are compared by value).
\<close>

definition mutatePosition :: "string \<Rightarrow> Position \<Rightarrow> Position \<Rightarrow> ledger \<Rightarrow> ledger" where
  "mutatePosition tk old new l =
     (if map_of (positions l) tk = Some old
      then l\<lparr>positions := AList.update tk new (positions l)\<rparr>
      else l)"

definition orderFilled :: "string \<Rightarrow> Position \<Rightarrow> ledger \<Rightarrow> ledger" where
  "orderFilled tk position l = mutatePosition tk position (position\<lparr>isFilled := Some True\<rparr>) l"

subsection \<open>Opening a position (older variant)\<close>


section \<open>Market metadata and prices\<close>

text \<open>
  Of a market the bot reads the volume and the four quotes, which are nullable
  strings. \<^verbatim>\<open>parseFloat\<close> is a parameter \<open>pf\<close> of the model. A quote counts as
  present when it is truthy: neither \<^verbatim>\<open>null\<close> nor the empty string.
\<close>

record Market =
  ticker :: string
  volume :: rat
  yesBid :: "string option"
  yesAsk :: "string option"
  noBid :: "string option"
  noAsk :: "string option"

text \<open>
  The answer of the REST API to one request: a 2xx response with a market, another
  status, or an exception of \<^verbatim>\<open>fetch\<close> or of the JSON decoding.
\<close>

datatype http_response = HttpOk Market | HttpStatus nat | HttpThrew

datatype fetch_event =
    Error_MarketNotFound string
  | Error_FailedToFetch string nat
  | Error_Fetching string

text \<open>
  \<open>fetchMarket\<close> returns the market or \<^verbatim>\<open>null\<close>, the cache, whether it sent a
  request, and its output.
\<close>

definition fetchMarket ::
  "(string, Market) js_map \<Rightarrow> string \<Rightarrow> bool \<Rightarrow> http_response
   \<Rightarrow> Market option \<times> (string, Market) js_map \<times> bool \<times> fetch_event list" where
  "fetchMarket marketCache tk skipCache response =
     (if \<not> skipCache \<and> map_of marketCache tk \<noteq> None
      then (map_of marketCache tk, marketCache, False, [])
      else
        (case response of
           HttpStatus status \<Rightarrow>
             (None, marketCache, True,
              if status = 404
              then (if \<not> skipCache then [Error_MarketNotFound tk] else [])
              else [Error_FailedToFetch tk status])
         | HttpOk market \<Rightarrow> (Some market, AList.update tk market marketCache, True, [])
         | HttpThrew \<Rightarrow> (None, marketCache, True, [Error_Fetching tk])))"

definition truthy :: "string option \<Rightarrow> bool" where
  "truthy s = (case s of None \<Rightarrow> False | Some v \<Rightarrow> v \<noteq> [])"

text \<open>
  The price of one side, as \<open>getCurrentPrice\<close> computes it for the yes quotes and
  again for the no quotes.
\<close>

definition parseQuote :: "(string \<Rightarrow> jsnum) \<Rightarrow> string option \<Rightarrow> jsnum" where
  "parseQuote pf s = (case s of None \<Rightarrow> NaN | Some v \<Rightarrow> pf v)"

definition sidePrice :: "(string \<Rightarrow> jsnum) \<Rightarrow> string option \<Rightarrow> string option \<Rightarrow> jsnum option" where
  "sidePrice pf b a =
     (if truthy b \<and> truthy a
      then (let bid = js_mul (parseQuote pf b) (Num 100);
                ask = js_mul (parseQuote pf a) (Num 100)
            in Some (js_div (js_add bid ask) (Num 2)))
      else if truthy b then Some (js_mul (parseQuote pf b) (Num 100))
      else if truthy a then Some (js_mul (parseQuote pf a) (Num 100))
      else None)"

definition marketPrices :: "(string \<Rightarrow> jsnum) \<Rightarrow> Market \<Rightarrow> (jsnum \<times> jsnum) option" where
  "marketPrices pf market =
     (let yesPrice = sidePrice pf (yesBid market) (yesAsk market);
          noPrice = sidePrice pf (noBid market) (noAsk market)
      in case (yesPrice, noPrice) of
           (Some y, Some n) \<Rightarrow> Some (y, n)
         | _ \<Rightarrow> None)"

text \<open>
  \<open>getCurrentPrice\<close> takes the answers the API would give to its first and to its
  second request (a first call that returns \<^verbatim>\<open>null\<close> has sent one). It returns the prices or \<^verbatim>\<open>null\<close>, the cache, and the calls of
  \<open>fetchMarket\<close> it made, each as \<open>(skipCache, sent a request)\<close>.
\<close>

definition getCurrentPrice ::
  "(string \<Rightarrow> jsnum) \<Rightarrow> (string, Market) js_map \<Rightarrow> string \<Rightarrow> http_response \<Rightarrow> http_response
   \<Rightarrow> (jsnum \<times> jsnum) option \<times> (string, Market) js_map \<times> (bool \<times> bool) list" where
  "getCurrentPrice pf marketCache tk response1 response2 =
     (case fetchMarket marketCache tk False response1 of
        (Some market, cache1, sent1, ev1) \<Rightarrow>
          (marketPrices pf market, cache1, [(False, sent1)])
      | (None, cache1, sent1, ev1) \<Rightarrow>
          (case fetchMarket cache1 tk True response2 of
             (Some market, cache2, sent2, ev2) \<Rightarrow>
               (marketPrices pf market, cache2, [(False, sent1), (True, sent2)])
           | (None, cache2, sent2, ev2) \<Rightarrow>
               (None, cache2, [(False, sent1), (True, sent2)])))"

section \<open>Exit monitor\<close>

definition calculatePnL :: "Position \<Rightarrow> jsnum \<Rightarrow> jsnum" where
  "calculatePnL position currentPrice =
     (if Position.side position = Yes
      then js_mul (js_sub currentPrice (Num (Position.entryPrice position))) (contracts position)
      else js_mul (js_sub (Num (Position.entryPrice position)) currentPrice) (contracts position))"

definition calculatePnLPercentage :: "Position \<Rightarrow> jsnum \<Rightarrow> jsnum" where
  "calculatePnLPercentage position currentPrice =
     (if Position.side position = Yes
      then js_mul (js_div (js_sub currentPrice (Num (Position.entryPrice position)))
                          (Num (Position.entryPrice position))) (Num 100)
      else js_mul (js_div (js_sub (Num (Position.entryPrice position)) currentPrice)
                          (Num (Position.entryPrice position))) (Num 100))"

text \<open>
  The exit rules: \<open>shouldClose\<close> with its \<open>closeReason\<close>, or \<open>None\<close> when no
  rule fires.
\<close>

definition profitTargetHit :: "config \<Rightarrow> jsnum \<Rightarrow> bool" where
  "profitTargetHit cfg pp =
     (case PROFIT_TARGET cfg of None \<Rightarrow> False | Some pt \<Rightarrow> js_ge pp (Num (pt * 100)))"

definition stopLossHit :: "config \<Rightarrow> jsnum \<Rightarrow> bool" where
  "stopLossHit cfg pp =
     (case STOP_LOSS cfg of None \<Rightarrow> False | Some sl \<Rightarrow> js_le pp (Num (- sl * 100)))"

definition exitRule :: "config \<Rightarrow> jsnum \<Rightarrow> reason option" where
  "exitRule cfg pp =
     (if profitTargetHit cfg pp then Some (ProfitTargetReached pp)
      else if stopLossHit cfg pp then Some (StopLossHit pp)
      else None)"

text \<open>
  The record of a closed trade, with the momentum metrics stored at entry, and the
  four statements every close ends with: push the trade, delete the position and
  its metrics, and (where the path does so) set the cooldown.
\<close>

definition entryMetrics :: "string \<Rightarrow> ledger \<Rightarrow> TradeMetrics option" where
  "entryMetrics tk l =
     (case map_of (positionMomentumMetrics l) tk of
        None \<Rightarrow> None
      | Some m \<Rightarrow>
          Some \<lparr> TradeMetrics.volume = totalVolume m, trades = tradeCount m,
                 bias = directionalBias m,
                 priceChange = MomentumMetrics.priceChange m \<rparr>)"

definition closedTradeOf ::
  "string \<Rightarrow> Position \<Rightarrow> jsnum \<Rightarrow> int \<Rightarrow> rat \<Rightarrow> jsnum \<Rightarrow> jsnum \<Rightarrow> reason \<Rightarrow> ledger \<Rightarrow> ClosedTrade" where
  "closedTradeOf tk position xp xt dur pl pp rs l =
     \<lparr> ClosedTrade.ticker = tk,
       side = Position.side position,
       entryPrice = Position.entryPrice position,
       exitPrice = xp,
       entryTime = Position.entryTime position,
       exitTime = xt,
       duration = dur,
       pnl = pl,
       pnlPercent = pp,
       reason = rs,
       momentumMetrics = entryMetrics tk l \<rparr>"

definition recordClose :: "string \<Rightarrow> ClosedTrade \<Rightarrow> Cooldown option \<Rightarrow> ledger \<Rightarrow> ledger" where
  "recordClose tk closedTrade cooldown l =
     l\<lparr> closedTrades := closedTrades l @ [closedTrade],
        positions := AList.delete tk (positions l),
        positionMomentumMetrics := AList.delete tk (positionMomentumMetrics l),
        tickerCooldowns :=
          (case cooldown of
             None \<Rightarrow> tickerCooldowns l
           | Some c \<Rightarrow> AList.update tk c (tickerCooldowns l)) \<rparr>"

text \<open>
  What one pass of the loop of \<open>checkPositions\<close> meets: the time when it starts,
  the result of \<open>getCurrentPrice\<close>, the time after that call, and for a live
  close what the calls of the sell path gave and the time after them.
\<close>

datatype live_exit =
    ExitMarketUnavailable
  | ExitMintsUnavailable
  | ExitNoTokens
  | ExitThrew string
  | ExitSold

record check_env =
  t_start :: int
  prices :: "(jsnum \<times> jsnum) option"
  t_priced :: int
  live :: live_exit
  t_sold :: int

definition unfilled :: "Position \<Rightarrow> bool" where
  "unfilled position = (executionMode position = Some Async \<and> isFilled position \<noteq> Some True)"

subsection \<open>One pass of the loop (newer variant)\<close>

text \<open>The branch for a position that an exit rule closes.\<close>

definition checkPosition_close ::
  "config \<Rightarrow> check_env \<Rightarrow> string \<Rightarrow> Position \<Rightarrow> jsnum \<Rightarrow> jsnum \<Rightarrow> jsnum \<Rightarrow> reason \<Rightarrow> ledger
   \<Rightarrow> ledger \<times> event list" where
  "checkPosition_close cfg env tk position currentPrice pl pp closeReason l =
     (if PAPER_TRADE_ONLY cfg then
        (let exitTime = t_priced env;
             dur = of_int (exitTime - Position.entryTime position) / 1000;
             closedTrade = closedTradeOf tk position currentPrice exitTime dur
                             (js_div pl (Num 100)) pp closeReason l;
             wasWin = js_gt pl (Num 0)
         in (recordClose tk closedTrade (Some \<lparr> timestamp = t_priced env, wasWin = wasWin \<rparr>) l,
             [File_Trade closedTrade, Log_ClosedPaperPosition tk]))
      else if unfilled position then (l, [Log_WaitingForFill tk])
      else
        (case live env of
           ExitMarketUnavailable \<Rightarrow> (l, [Error_CannotCloseReal tk])
         | ExitMintsUnavailable \<Rightarrow> (l, [Error_CannotCloseReal tk])
         | ExitThrew msg \<Rightarrow> (l, [Error_FailedCloseReal tk])
         | ExitNoTokens \<Rightarrow>
             (let exitTime = t_sold env;
                  dur = of_int (exitTime - Position.entryTime position) / 1000;
                  closedTrade = closedTradeOf tk position currentPrice exitTime dur
                                  (js_div pl (Num 100)) pp (NoTokensFound closeReason) l
              in (recordClose tk closedTrade None l,
                  [Warn_NoOutcomeTokens tk, File_Trade closedTrade]))
         | ExitSold \<Rightarrow>
             (let exitTime = t_sold env;
                  dur = of_int (exitTime - Position.entryTime position) / 1000;
                  closedTrade = closedTradeOf tk position currentPrice exitTime dur
                                  (js_div pl (Num 100)) pp closeReason l;
                  wasWin = js_gt pl (Num 0)
              in (recordClose tk closedTrade (Some \<lparr> timestamp = t_sold env, wasWin = wasWin \<rparr>) l,
                  [Log_ClosingReal tk, File_Trade closedTrade, Log_RealPositionClosed tk]))))"

text \<open>The branch for a position without a price.\<close>

definition checkPosition_noPrice ::
  "config \<Rightarrow> check_env \<Rightarrow> string \<Rightarrow> Position \<Rightarrow> ledger \<Rightarrow> ledger \<times> event list" where
  "checkPosition_noPrice cfg env tk position l =
     (let positionAge = t_start env - Position.entryTime position
      in if positionAge > MAX_POSITION_AGE_MS cfg then
           (let closedTrade =
                  closedTradeOf tk position (Num (Position.entryPrice position)) (t_priced env)
                    (of_int positionAge / 1000) (Num 0) (Num 0)
                    (ForceClosedNoPrice (MAX_POSITION_AGE_MS cfg)) l
            in (recordClose tk closedTrade
                  (Some \<lparr> timestamp = t_priced env, wasWin = False \<rparr>) l,
                [File_Trade closedTrade, Log_ForceClosed tk]))
         else (l, if positionAge > 30000 then [Warn_CannotFetchPrice tk positionAge] else []))"

text \<open>
  The debug line, written at most every 30 seconds per position; it stores its
  time on the position object. The result is the position object after it, the
  ledger and the output.
\<close>

definition debugLog ::
  "check_env \<Rightarrow> string \<Rightarrow> Position \<Rightarrow> ledger \<Rightarrow> Position \<times> ledger \<times> event list" where
  "debugLog env tk position l =
     (let lastLogTime = (case lastDebugLogTime position of None \<Rightarrow> 0 | Some t \<Rightarrow> t);
          now = t_priced env
      in if now - lastLogTime \<ge> 30000
         then (position\<lparr>lastDebugLogTime := Some now\<rparr>,
               mutatePosition tk position (position\<lparr>lastDebugLogTime := Some now\<rparr>) l,
               [Log_PositionDebug tk])
         else (position, l, []))"

text \<open>The branch for a position that no exit rule closes.\<close>

definition progressUpdate ::
  "string \<Rightarrow> Position \<Rightarrow> jsnum \<Rightarrow> jsnum \<Rightarrow> ledger \<Rightarrow> ledger \<times> event list" where
  "progressUpdate tk position pl pp l =
     (let lastLoggedPnL = (case lastLoggedPnLPercent position of None \<Rightarrow> pp | Some v \<Rightarrow> v);
          pnlChange = js_abs (js_sub pp lastLoggedPnL)
      in if js_ge pnlChange (Num (1 / 2))
         then (mutatePosition tk position (position\<lparr>lastLoggedPnLPercent := Some pp\<rparr>) l,
               [Log_PositionUpdate tk pl pp])
         else (l, []))"

definition checkPosition ::
  "config \<Rightarrow> check_env \<Rightarrow> string \<Rightarrow> Position \<Rightarrow> ledger \<Rightarrow> ledger \<times> event list" where
  "checkPosition cfg env tk position l =
     (case prices env of
        None \<Rightarrow> checkPosition_noPrice cfg env tk position l
      | Some (yesPrice, noPrice) \<Rightarrow>
          (let currentPrice = (if Position.side position = Yes then yesPrice else noPrice);
               pl = calculatePnL position currentPrice;
               pp = calculatePnLPercentage position currentPrice
           in case debugLog env tk position l of
                (position1, l1, ev1) \<Rightarrow>
                  (case (case exitRule cfg pp of
                           Some closeReason \<Rightarrow>
                             checkPosition_close cfg env tk position1 currentPrice pl pp closeReason l1
                         | None \<Rightarrow> progressUpdate tk position1 pl pp l1) of
                     (l2, ev2) \<Rightarrow> (l2, ev1 @ ev2))))"

subsection \<open>One pass of the loop (older variant)\<close>

definition checkPosition_noPrice_p2 ::
  "config \<Rightarrow> check_env \<Rightarrow> string \<Rightarrow> Position \<Rightarrow> ledger \<Rightarrow> ledger \<times> event list" where
  "checkPosition_noPrice_p2 cfg env tk position l =
     (let positionAge = t_start env - Position.entryTime position
      in if positionAge > MAX_POSITION_AGE_MS cfg then
           (let closedTrade =
                  closedTradeOf tk position (Num (Position.entryPrice position)) (t_priced env)
                    (of_int positionAge / 1000) (Num 0) (Num 0)
                    (ForceClosedNoPrice (MAX_POSITION_AGE_MS cfg)) l
            in (recordClose tk closedTrade
                  (if LOSS_COOLDOWN_ENABLED cfg
                   then Some \<lparr> timestamp = t_priced env, wasWin = False \<rparr> else None) l,
                [File_Trade closedTrade, Log_ForceClosed tk]))
         else (l, if positionAge > 30000 then [Warn_CannotFetchPrice tk positionAge] else []))"

definition checkPosition_close_p2 ::
  "config \<Rightarrow> check_env \<Rightarrow> string \<Rightarrow> Position \<Rightarrow> jsnum \<Rightarrow> jsnum \<Rightarrow> jsnum \<Rightarrow> reason \<Rightarrow> ledger
   \<Rightarrow> ledger \<times> event list" where
  "checkPosition_close_p2 cfg env tk position currentPrice pl pp closeReason l =
     (let exitTime = t_priced env;
          dur = of_int (exitTime - Position.entryTime position) / 1000;
          closedTrade = closedTradeOf tk position currentPrice exitTime dur
                          (js_div pl (Num 100)) pp closeReason l;
          wasWin = js_gt pl (Num 0)
      in (recordClose tk closedTrade
            (if (wasWin \<and> WIN_COOLDOWN_ENABLED cfg) \<or> (\<not> wasWin \<and> LOSS_COOLDOWN_ENABLED cfg)
             then Some \<lparr> timestamp = t_priced env, wasWin = wasWin \<rparr>
             else None) l,
          [File_Trade closedTrade, Log_ClosedPosition tk]))"

definition checkPosition_p2 ::
  "config \<Rightarrow> check_env \<Rightarrow> string \<Rightarrow> Position \<Rightarrow> ledger \<Rightarrow> ledger \<times> event list" where
  "checkPosition_p2 cfg env tk position l =
     (case prices env of
        None \<Rightarrow> checkPosition_noPrice_p2 cfg env tk position l
      | Some (yesPrice, noPrice) \<Rightarrow>
          (let currentPrice = (if Position.side position = Yes then yesPrice else noPrice);
               pl = calculatePnL position currentPrice;
               pp = calculatePnLPercentage position currentPrice
           in case exitRule cfg pp of
                Some closeReason \<Rightarrow>
                  checkPosition_close_p2 cfg env tk position currentPrice pl pp closeReason l
              | None \<Rightarrow> progressUpdate tk position pl pp l))"

subsection \<open>Manual close (newer variant)\<close>

datatype close_result = Success | Failure string

definition closePositionManually ::
  "config \<Rightarrow> check_env \<Rightarrow> string \<Rightarrow> string \<Rightarrow> ledger \<Rightarrow> close_result \<times> ledger \<times> event list" where
  "closePositionManually cfg env tk rs l =
     (case map_of (positions l) tk of
        None \<Rightarrow> (Failure ''Position not found'', l, [])
      | Some position \<Rightarrow>
          (case prices env of
             None \<Rightarrow> (Failure ''Unable to fetch current price'', l, [])
           | Some (yesPrice, noPrice) \<Rightarrow>
               (let currentPrice = (if Position.side position = Yes then yesPrice else noPrice);
                    pl = calculatePnL position currentPrice;
                    pp = calculatePnLPercentage position currentPrice
                in if PAPER_TRADE_ONLY cfg then
                     (let exitTime = t_priced env;
                          dur = of_int (exitTime - Position.entryTime position) / 1000;
                          closedTrade = closedTradeOf tk position currentPrice exitTime dur
                                          (js_div pl (Num 100)) pp (Given rs) l;
                          wasWin = js_gt pl (Num 0)
                      in (Success,
                          recordClose tk closedTrade
                            (Some \<lparr> timestamp = t_priced env, wasWin = wasWin \<rparr>) l,
                          [File_Trade closedTrade, Log_ManuallyClosedPaper tk]))
                   else if unfilled position then (Failure ''Order not yet filled'', l, [])
                   else
                     (case live env of
                        ExitMarketUnavailable \<Rightarrow> (Failure ''Failed to fetch market data'', l, [])
                      | ExitMintsUnavailable \<Rightarrow>
                          (Failure ''Failed to extract outcome token mints'', l, [])
                      | ExitNoTokens \<Rightarrow>
                          (Failure ''No tokens found - position may not have filled'', l, [])
                      | ExitThrew msg \<Rightarrow>
                          (Failure (if msg = [] then ''Failed to close position'' else msg), l, [])
                      | ExitSold \<Rightarrow>
                          (let exitTime = t_sold env;
                               dur = of_int (exitTime - Position.entryTime position) / 1000;
                               closedTrade = closedTradeOf tk position currentPrice exitTime dur
                                               (js_div pl (Num 100)) pp (Given rs) l;
                               wasWin = js_gt pl (Num 0)
                           in (Success,
                               recordClose tk closedTrade
                                 (Some \<lparr> timestamp = t_sold env, wasWin = wasWin \<rparr>) l,
                               [Log_ManuallyClosingReal tk, File_Trade closedTrade,
                                Log_ManuallyClosedReal tk]))))))"

section \<open>Metrics\<close>

record Metrics =
  totalTrades :: nat
  winningTrades :: nat
  losingTrades :: nat
  totalPnL :: jsnum
  winRate :: rat
  avgWin :: jsnum
  avgLoss :: jsnum
  profitFactor :: jsnum
  largestWin :: jsnum
  largestLoss :: jsnum

text \<open>\<^verbatim>\<open>ts.reduce((sum, t) => sum + t.pnl, 0)\<close>\<close>

definition sumPnl :: "ClosedTrade list \<Rightarrow> jsnum" where
  "sumPnl ts = foldl (\<lambda>sum t. js_add sum (pnl t)) (Num 0) ts"

definition getMetrics :: "ClosedTrade list \<Rightarrow> Metrics" where
  "getMetrics cts =
     (if length cts = 0 then
        \<lparr> totalTrades = 0, winningTrades = 0, losingTrades = 0, totalPnL = Num 0,
          winRate = 0, avgWin = Num 0, avgLoss = Num 0, profitFactor = Num 0,
          largestWin = Num 0, largestLoss = Num 0 \<rparr>
      else
        (let wins = filter (\<lambda>t. js_gt (pnl t) (Num 0)) cts;
             losses = filter (\<lambda>t. js_lt (pnl t) (Num 0)) cts;
             totalPnL = sumPnl cts;
             totalWins = sumPnl wins;
             totalLosses = js_abs (sumPnl losses)
         in \<lparr> totalTrades = length cts,
              winningTrades = length wins,
              losingTrades = length losses,
              totalPnL = totalPnL,
              winRate = of_nat (length wins) / of_nat (length cts) * 100,
              avgWin = (if length wins > 0 then js_div totalWins (Num (of_nat (length wins)))
                        else Num 0),
              avgLoss = (if length losses > 0
                         then js_div totalLosses (Num (of_nat (length losses))) else Num 0),
              profitFactor = (if js_gt totalLosses (Num 0) then js_div totalWins totalLosses
                              else if js_gt totalWins (Num 0) then PInf else Num 0),
              largestWin = (if length wins > 0 then Math_max (map pnl wins) else Num 0),
              largestLoss = (if length losses > 0 then Math_min (map pnl losses) else Num 0) \<rparr>))"

section \<open>Runs of the event loop\<close>

text \<open>
  The handlers run on one event loop: a handler runs alone until it awaits. A feed
  handler that opens a position is two steps in live mode, one before the awaits
  of \<open>openPosition\<close> and one after them, and other handlers may run in between;
  the opens that wait are kept in a list, and \<open>OpenEnd i\<close> resumes the one at
  index \<open>i\<close>. In paper mode \<open>openPosition\<close> does not
  await after its checks and the open is a single step. One pass of the exit
  loop, a manual close and a fill notice are single steps on the ledger.
\<close>

type_synonym pending_open = "TradeUpdate \<times> MomentumMetrics \<times> side \<times> rat \<times> jsnum"

datatype op =
    Open int int live_entry TradeUpdate MomentumMetrics
  | OpenBegin int TradeUpdate MomentumMetrics
  | OpenEnd nat int live_entry
  | Check check_env string Position
  | ManualClose check_env string string
  | Filled string Position

fun step :: "config \<Rightarrow> ledger \<times> pending_open list \<Rightarrow> op \<Rightarrow> ledger \<times> pending_open list" where
  "step cfg (l, ps) (Open now later ext trade metrics) =
     (fst (snd (openPosition cfg now later ext trade metrics l)), ps)"
| "step cfg (l, ps) (OpenBegin now trade metrics) =
     (case openPosition_checks cfg now trade metrics l of
        (Reject r, l1, ev) \<Rightarrow> (l1, ps)
      | (Accept sd ep cn, l1, ev) \<Rightarrow>
          if PAPER_TRADE_ONLY cfg
          then (fst (snd (openPosition_paper now trade metrics sd ep cn l1)), ps)
          else (l1, ps @ [(trade, metrics, sd, ep, cn)]))"
| "step cfg (l, ps) (OpenEnd i later ext) =
     (if i < length ps
      then (case ps ! i of
              (trade, metrics, sd, ep, cn) \<Rightarrow>
                (fst (snd (openPosition_live later ext trade metrics sd ep cn l)),
                 take i ps @ drop (Suc i) ps))
      else (l, ps))"
| "step cfg (l, ps) (Check env tk position) = (fst (checkPosition cfg env tk position l), ps)"
| "step cfg (l, ps) (ManualClose env tk rs) = (fst (snd (closePositionManually cfg env tk rs l)), ps)"
| "step cfg (l, ps) (Filled tk position) = (orderFilled tk position l, ps)"

definition run :: "config \<Rightarrow> op list \<Rightarrow> ledger \<times> pending_open list" where
  "run cfg ops = foldl (step cfg) (empty_ledger, []) ops"




text \<open>Recording a sequence of ticks, each with the time at which it is recorded.\<close>

text \<open>
  The ticks of one ticker among the recorded ones, as queue entries; the entries
  of a queue that are newer than a cutoff; and the entries with a timestamp in
  \<open>[lo, hi]\<close> and in \<open>(lo, hi]\<close>.
\<close>

definition ticksOf :: "string \<Rightarrow> (int \<times> TradeUpdate) list \<Rightarrow> (TradeUpdate \<times> int) list" where
  "ticksOf tk recs =
     map (\<lambda>(now, trade). (trade, now)) (filter (\<lambda>(now, trade). market_ticker trade = tk) recs)"

definition newerThan :: "int \<Rightarrow> (TradeUpdate \<times> int) list \<Rightarrow> (TradeUpdate \<times> int) list" where
  "newerThan cutoff q = filter (\<lambda>t. cutoff < snd t) q"

definition withinClosed :: "int \<Rightarrow> int \<Rightarrow> (TradeUpdate \<times> int) list \<Rightarrow> (TradeUpdate \<times> int) list" where
  "withinClosed lo hi q = filter (\<lambda>t. lo \<le> snd t \<and> snd t \<le> hi) q"

definition withinHalfOpen :: "int \<Rightarrow> int \<Rightarrow> (TradeUpdate \<times> int) list \<Rightarrow> (TradeUpdate \<times> int) list" where
  "withinHalfOpen lo hi q = filter (\<lambda>t. lo < snd t \<and> snd t \<le> hi) q"

definition recordAll :: "config \<Rightarrow> (int \<times> TradeUpdate) list \<Rightarrow> momentum_trades \<Rightarrow> momentum_trades" where
  "recordAll cfg recs mt = foldl (\<lambda>m (now, trade). addTradeToMomentum cfg now trade m) mt recs"

section \<open>The conditions of an open, in the words of the specification\<close>

text \<open>
  The four rejection conditions for an open of the ticker \<open>tk\<close> at time \<open>now\<close>,
  the side and the entry price that follow from the metrics, and the number of
  contracts \<open>floor(sizeDollars * 100 / entryPriceCents)\<close>.
\<close>

definition hasPosition :: "string \<Rightarrow> ledger \<Rightarrow> bool" where
  "hasPosition tk l = (map_of (positions l) tk \<noteq> None)"

definition atCap :: "config \<Rightarrow> ledger \<Rightarrow> bool" where
  "atCap cfg l = (int (length (positions l)) \<ge> MAX_OPEN_POSITIONS cfg)"

definition inCooldown :: "config \<Rightarrow> int \<Rightarrow> string \<Rightarrow> ledger \<Rightarrow> bool" where
  "inCooldown cfg now tk l =
     (case map_of (tickerCooldowns l) tk of
        None \<Rightarrow> False
      | Some c \<Rightarrow> now - timestamp c < COOLDOWN_TIME_MS cfg)"

definition sideOf :: "MomentumMetrics \<Rightarrow> side" where
  "sideOf metrics = (if directionalBias metrics \<ge> 1 / 2 then Yes else No)"

definition entryPriceOf :: "TradeUpdate \<Rightarrow> MomentumMetrics \<Rightarrow> rat" where
  "entryPriceOf trade metrics =
     (if directionalBias metrics \<ge> 1 / 2 then yes_price trade else no_price trade)"

definition contractsOf :: "config \<Rightarrow> TradeUpdate \<Rightarrow> MomentumMetrics \<Rightarrow> jsnum" where
  "contractsOf cfg trade metrics =
     js_floor (js_div (Num (POSITION_SIZE_DOLLARS cfg * 100)) (Num (entryPriceOf trade metrics)))"

text \<open>The ledger without the cooldown entry of a ticker.\<close>

definition dropCooldown :: "string \<Rightarrow> ledger \<Rightarrow> ledger" where
  "dropCooldown tk l = l\<lparr>tickerCooldowns := AList.delete tk (tickerCooldowns l)\<rparr>"

text \<open>The position that a paper open stores.\<close>

definition paperPosition :: "config \<Rightarrow> int \<Rightarrow> TradeUpdate \<Rightarrow> MomentumMetrics \<Rightarrow> Position" where
  "paperPosition cfg now trade metrics =
     \<lparr> Position.ticker = market_ticker trade, side = sideOf metrics,
       entryPrice = entryPriceOf trade metrics, contracts = contractsOf cfg trade metrics,
       entryTime = now, entryTradeId = trade_id trade,
       lastLoggedPnLPercent = None, lastDebugLogTime = None,
       transactionSignature = None, executionMode = None, isFilled = None \<rparr>"


section \<open>The conditions of the exit monitor, in the words of the specification\<close>

text \<open>
  The price of the position's side, the unrealised pnl in percent, whether the
  pnl has moved by the minimum delta of 0.5 since the last progress notification,
  and whether the debug line of the newer variant is due.
\<close>

definition priceFor :: "Position \<Rightarrow> jsnum \<times> jsnum \<Rightarrow> jsnum" where
  "priceFor position pr = (if Position.side position = Yes then fst pr else snd pr)"

definition pnlMoved :: "Position \<Rightarrow> jsnum \<Rightarrow> bool" where
  "pnlMoved position pp =
     js_ge (js_abs (js_sub pp (case lastLoggedPnLPercent position of None \<Rightarrow> pp | Some v \<Rightarrow> v)))
           (Num (1 / 2))"

definition debugDue :: "check_env \<Rightarrow> Position \<Rightarrow> bool" where
  "debugDue env position =
     (t_priced env - (case lastDebugLogTime position of None \<Rightarrow> 0 | Some t \<Rightarrow> t) \<ge> 30000)"


text \<open>
  After a pass the position of \<open>tk\<close> is still open and no trade was recorded; or
  it is closed: no position is left under \<open>tk\<close> and one trade for \<open>tk\<close> with
  the given reason and pnl percent was appended.
\<close>

definition keptOpen :: "string \<Rightarrow> ledger \<Rightarrow> ledger \<Rightarrow> bool" where
  "keptOpen tk l l' = (map_of (positions l') tk \<noteq> None \<and> closedTrades l' = closedTrades l)"

definition closedFor :: "string \<Rightarrow> ledger \<Rightarrow> ledger \<Rightarrow> reason \<Rightarrow> jsnum \<Rightarrow> bool" where
  "closedFor tk l l' r pp =
     (map_of (positions l') tk = None \<and>
      length (closedTrades l') = Suc (length (closedTrades l)) \<and>
      butlast (closedTrades l') = closedTrades l \<and>
      ClosedTrade.ticker (last (closedTrades l')) = tk \<and>
      reason (last (closedTrades l')) = r \<and>
      pnlPercent (last (closedTrades l')) = pp)"


section \<open>Prices and metrics, in the words of the specification\<close>

text \<open>
  The market that \<open>getCurrentPrice\<close> works with: the cached one, else the answer
  to the first request, else the answer to the retry.
\<close>

definition obtainedMarket ::
  "(string, Market) js_map \<Rightarrow> string \<Rightarrow> http_response \<Rightarrow> http_response \<Rightarrow> Market option" where
  "obtainedMarket marketCache tk response1 response2 =
     (case map_of marketCache tk of
        Some m \<Rightarrow> Some m
      | None \<Rightarrow>
          (case response1 of
             HttpOk m \<Rightarrow> Some m
           | _ \<Rightarrow> (case response2 of HttpOk m \<Rightarrow> Some m | _ \<Rightarrow> None)))"

text \<open>The winning and the losing trades of a history.\<close>

definition winsOf :: "ClosedTrade list \<Rightarrow> ClosedTrade list" where
  "winsOf cts = filter (\<lambda>t. js_gt (pnl t) (Num 0)) cts"

definition lossesOf :: "ClosedTrade list \<Rightarrow> ClosedTrade list" where
  "lossesOf cts = filter (\<lambda>t. js_lt (pnl t) (Num 0)) cts"

text \<open>The pnl of a trade as a rational, for a trade whose pnl is finite.\<close>

definition finitePnl :: "ClosedTrade \<Rightarrow> rat" where
  "finitePnl t = (case pnl t of Num r \<Rightarrow> r | _ \<Rightarrow> 0)"

section \<open>The bounds of the ledger\<close>

text \<open>
  Each ticker has at most one position and the number of positions is at most the
  configured cap.
\<close>

definition ledger_inv :: "config \<Rightarrow> ledger \<Rightarrow> bool" where
  "ledger_inv cfg l =
     (distinct (map fst (positions l)) \<and> int (length (positions l)) \<le> MAX_OPEN_POSITIONS cfg)"

text \<open>A step that keeps the keys distinct and adds no position.\<close>

definition noGrowth :: "ledger \<Rightarrow> ledger \<Rightarrow> bool" where
  "noGrowth l l' =
     ((distinct (map fst (positions l)) \<longrightarrow> distinct (map fst (positions l'))) \<and>
      length (positions l') \<le> length (positions l))"

text \<open>The steps in which a handler runs an open from its checks to its end.\<close>

fun atomic :: "op \<Rightarrow> bool" where
  "atomic (OpenBegin now trade metrics) = False"
| "atomic (OpenEnd i later ext) = False"
| "atomic x = True"

section \<open>Example values\<close>

text \<open>The configuration that the bot has when no environment variable is set.\<close>

definition default_config :: config where
  "default_config =
     \<lparr> MOMENTUM_WINDOW_SECONDS = 60, MOMENTUM_MIN_VOLUME = 500, MOMENTUM_MIN_TRADES = 5,
       MOMENTUM_MIN_DIRECTIONAL_BIAS = 7 / 10, POSITION_SIZE_DOLLARS = 1,
       MAX_OPEN_POSITIONS = 10, PROFIT_TARGET = None, STOP_LOSS = None,
       MAX_POSITION_AGE_MS = 300000, LOSS_COOLDOWN_ENABLED = True,
       WIN_COOLDOWN_ENABLED = False, COOLDOWN_TIME_MS = 60000, PAPER_TRADE_ONLY = True \<rparr>"

text \<open>A tick of the feed for a ticker: taker side, yes price in cents, number of contracts.\<close>

definition tick :: "string \<Rightarrow> side \<Rightarrow> rat \<Rightarrow> rat \<Rightarrow> TradeUpdate" where
  "tick tk sd p c =
     \<lparr> market_ticker = tk, trade_id = ''t1'', price = p, count = c, yes_price = p,
       no_price = 100 - p, taker_side = sd, created_time = 0 \<rparr>"

text \<open>
  Live trading with a cap of one position, and metrics of five yes ticks with a
  total volume of 520.
\<close>

definition live_config :: config where
  "live_config = default_config\<lparr>MAX_OPEN_POSITIONS := 1, PAPER_TRADE_ONLY := False\<rparr>"

definition strongYes :: MomentumMetrics where
  "strongYes = \<lparr> totalVolume = 520, tradeCount = 5, yesCount = 5, noCount = 0,
                 directionalBias = 1, priceChange = 0 \<rparr>"

text \<open>
  A paper position of seven yes contracts entered at 14 cents at time 0, the ledger
  that holds it, and what a pass of the exit loop meets at time \<open>t\<close> without a
  price and with the yes and no prices \<open>y\<close> and \<open>n\<close>.
\<close>

definition positionKX :: Position where
  "positionKX = paperPosition default_config 0 (tick ''KX'' Yes 14 100) strongYes"

definition ledgerKX :: ledger where
  "ledgerKX =
     fst (snd (openPosition default_config 0 0 EntryThrew (tick ''KX'' Yes 14 100) strongYes
                 empty_ledger))"

definition noPriceAt :: "int \<Rightarrow> check_env" where
  "noPriceAt t = \<lparr> t_start = t, prices = None, t_priced = t + 200, live = ExitSold, t_sold = t + 400 \<rparr>"

definition pricedAt :: "int \<Rightarrow> rat \<Rightarrow> rat \<Rightarrow> check_env" where
  "pricedAt t y n =
     \<lparr> t_start = t, prices = Some (Num y, Num n), t_priced = t + 200, live = ExitSold,
       t_sold = t + 400 \<rparr>"

text \<open>
  A profit target of 2.5 percent and a stop loss of 12 percent, in paper and in
  live mode; both thresholds at zero; a paper position of two yes contracts
  entered at 50 cents with its ledger; and a live position whose \<^verbatim>\<open>async\<close>
  entry order is not filled, with its ledger.
\<close>

definition target_config :: config where
  "target_config = default_config\<lparr>PROFIT_TARGET := Some (1 / 40), STOP_LOSS := Some (3 / 25)\<rparr>"

definition live_target_config :: config where
  "live_target_config = target_config\<lparr>PAPER_TRADE_ONLY := False\<rparr>"

definition zero_target_config :: config where
  "zero_target_config = default_config\<lparr>PROFIT_TARGET := Some 0, STOP_LOSS := Some 0\<rparr>"

definition position50 :: Position where
  "position50 = paperPosition default_config 0 (tick ''KX'' Yes 50 100) strongYes"

definition ledger50 :: ledger where
  "ledger50 =
     fst (snd (openPosition default_config 0 0 EntryThrew (tick ''KX'' Yes 50 100) strongYes
                 empty_ledger))"

definition livePosition :: Position where
  "livePosition =
     (paperPosition default_config 500 (tick ''KX'' Yes 50 100) strongYes)
       \<lparr> transactionSignature := Some ''sigKX'', executionMode := Some Async,
         isFilled := Some False \<rparr>"

definition liveLedger :: ledger where
  "liveLedger =
     fst (snd (openPosition live_target_config 0 500 (EntryOrdered ''sigKX'' Async)
                 (tick ''KX'' Yes 50 100) strongYes empty_ledger))"










text \<open>
  A stand-in for \<^verbatim>\<open>parseFloat\<close> on the three quotes of the example market, and
  markets with some and with no quotes.
\<close>

definition exampleParseFloat :: "string \<Rightarrow> jsnum" where
  "exampleParseFloat s =
     (if s = ''0.40'' then Num (2 / 5)
      else if s = ''0.44'' then Num (11 / 25)
      else if s = ''0.55'' then Num (11 / 20)
      else NaN)"

definition quotedMarket :: Market where
  "quotedMarket =
     \<lparr> Market.ticker = ''KX'', volume = 1000, yesBid = Some ''0.40'', yesAsk = Some ''0.44'',
       noBid = Some ''0.55'', noAsk = None \<rparr>"

definition unquotedMarket :: Market where
  "unquotedMarket =
     \<lparr> Market.ticker = ''KX'', volume = 1000, yesBid = None, yesAsk = None,
       noBid = None, noAsk = None \<rparr>"

text \<open>A closed trade with a given pnl in dollars.\<close>

definition tradeWithPnl :: "jsnum \<Rightarrow> ClosedTrade" where
  "tradeWithPnl x =
     \<lparr> ClosedTrade.ticker = ''KX'', side = Yes, entryPrice = 14, exitPrice = Num 15,
       entryTime = 0, exitTime = 1000, duration = 1, pnl = x, pnlPercent = Num 0,
       reason = Given ''Manual close'', momentumMetrics = None \<rparr>"

text \<open>A history with a win of 7 cents, a loss of 5 cents and a trade at break even.\<close>

definition mixedHistory :: "ClosedTrade list" where
  "mixedHistory = [tradeWithPnl (Num (7 / 100)), tradeWithPnl (Num (- 1 / 20)), tradeWithPnl (Num 0)]"

section \<open>Momentum window: proofs\<close>

lemma foldl_momentum_step:
  "foldl momentum_step (v, y, n, f, l) q =
     (v + sum_list (map (\<lambda>t. count (fst t)) q),
      y + length (filter (\<lambda>t. taker_side (fst t) = Yes) q),
      n + length (filter (\<lambda>t. taker_side (fst t) \<noteq> Yes) q),
      (if f = None then (case q of [] \<Rightarrow> None | t # _ \<Rightarrow> Some (price (fst t))) else f),
      (if q = [] then l else Some (price (fst (last q)))))"
proof (induction q arbitrary: v y n f l)
  case Nil
  then show ?case by simp
next
  case (Cons t q)
  obtain trade ts where t: "t = (trade, ts)" by (cases t)
  show ?case
    unfolding t by (simp add: Cons.IH split: list.splits)
qed

lemma calculateMomentumMetrics_queue:
  assumes "map_of mt tk = Some q" "q \<noteq> []"
  shows "calculateMomentumMetrics mt tk =
     Some \<lparr> totalVolume = sum_list (map (\<lambda>t. count (fst t)) q),
            tradeCount = length q,
            yesCount = length (filter (\<lambda>t. taker_side (fst t) = Yes) q),
            noCount = length (filter (\<lambda>t. taker_side (fst t) \<noteq> Yes) q),
            directionalBias =
              of_nat (length (filter (\<lambda>t. taker_side (fst t) = Yes) q)) / of_nat (length q),
            priceChange = price (fst (last q)) - price (fst (hd q)) \<rparr>"
  using assms
  by (cases q) (simp_all add: calculateMomentumMetrics_def foldl_momentum_step del: foldl.simps)

lemma calculateMomentumMetrics_None:
  "calculateMomentumMetrics mt tk = None \<longleftrightarrow> (map_of mt tk = None \<or> map_of mt tk = Some [])"
  by (auto simp: calculateMomentumMetrics_def split: option.splits prod.splits)

lemma addTradeToMomentum_same:
  "map_of (addTradeToMomentum cfg now trade mt) (market_ticker trade) =
     Some (filter (\<lambda>t. \<not> snd t \<le> now - MOMENTUM_WINDOW_SECONDS cfg * 1000)
            ((case map_of mt (market_ticker trade) of None \<Rightarrow> [] | Some q \<Rightarrow> q) @ [(trade, now)]))"
  by (simp add: addTradeToMomentum_def Let_def update_conv' not_le)

lemma addTradeToMomentum_other:
  "tk \<noteq> market_ticker trade \<Longrightarrow> map_of (addTradeToMomentum cfg now trade mt) tk = map_of mt tk"
  by (simp add: addTradeToMomentum_def Let_def update_conv')

lemma ticksOf_snoc:
  "ticksOf tk (recs @ [(now, trade)]) =
     (if market_ticker trade = tk then ticksOf tk recs @ [(trade, now)] else ticksOf tk recs)"
  by (simp add: ticksOf_def)

lemma ticksOf_times: "t \<in> set (ticksOf tk recs) \<Longrightarrow> snd t \<in> fst ` set recs"
  by (force simp: ticksOf_def)

lemma newerThan_newerThan: "c1 \<le> c2 \<Longrightarrow> newerThan c2 (newerThan c1 q) = newerThan c2 q"
  unfolding newerThan_def filter_filter by (rule filter_cong) auto

lemma recordAll_snoc:
  "recordAll cfg (recs @ [(now, trade)]) mt = addTradeToMomentum cfg now trade (recordAll cfg recs mt)"
  by (simp add: recordAll_def)

text \<open>
  When the clock does not go back, the queue of a ticker holds the ticks recorded
  for it that are newer than the cutoff of its last record.
\<close>

lemma recordAll_queue:
  "sorted (map fst recs) \<Longrightarrow>
   map_of (recordAll cfg recs []) tk =
     (if ticksOf tk recs = [] then None
      else Some (newerThan (snd (last (ticksOf tk recs)) - MOMENTUM_WINDOW_SECONDS cfg * 1000)
                   (ticksOf tk recs)))"
proof (induction recs rule: rev_induct)
  case Nil
  show ?case by (simp add: recordAll_def ticksOf_def)
next
  case (snoc r recs)
  obtain now trade where r: "r = (now, trade)" by (cases r)
  from snoc.prems have srt: "sorted (map fst recs)" and le: "\<forall>x \<in> set recs. fst x \<le> now"
    by (auto simp: r sorted_append)
  note IH = snoc.IH [OF srt]
  let ?w = "MOMENTUM_WINDOW_SECONDS cfg * 1000"
  show ?case
  proof (cases "market_ticker trade = tk")
    case False
    then show ?thesis
      unfolding r recordAll_snoc by (simp add: addTradeToMomentum_other IH ticksOf_snoc)
  next
    case True
    have old: "(case map_of (recordAll cfg recs []) tk of None \<Rightarrow> [] | Some q \<Rightarrow> q) =
               (if ticksOf tk recs = [] then []
                else newerThan (snd (last (ticksOf tk recs)) - ?w) (ticksOf tk recs))"
      by (simp add: IH)
    have c: "ticksOf tk recs \<noteq> [] \<Longrightarrow> snd (last (ticksOf tk recs)) - ?w \<le> now - ?w"
    proof -
      assume ne: "ticksOf tk recs \<noteq> []"
      then have "last (ticksOf tk recs) \<in> set (ticksOf tk recs)" by simp
      then have "snd (last (ticksOf tk recs)) \<in> fst ` set recs" by (rule ticksOf_times)
      with le show ?thesis by auto
    qed
    have "map_of (recordAll cfg (recs @ [r]) []) tk =
          Some (newerThan (now - ?w)
                 ((case map_of (recordAll cfg recs []) tk of None \<Rightarrow> [] | Some q \<Rightarrow> q)
                  @ [(trade, now)]))"
      unfolding r recordAll_snoc
      using addTradeToMomentum_same [of cfg now trade "recordAll cfg recs []"] True
      by (simp add: newerThan_def not_le)
    also have "\<dots> = Some (newerThan (now - ?w) (ticksOf tk recs @ [(trade, now)]))"
    proof (cases "ticksOf tk recs = []")
      case True
      then show ?thesis by (simp add: old)
    next
      case False
      have "newerThan (now - ?w)
              (newerThan (snd (last (ticksOf tk recs)) - ?w) (ticksOf tk recs) @ [(trade, now)])
          = newerThan (now - ?w) (newerThan (snd (last (ticksOf tk recs)) - ?w) (ticksOf tk recs))
            @ newerThan (now - ?w) [(trade, now)]"
        by (simp add: newerThan_def)
      also have "\<dots> = newerThan (now - ?w) (ticksOf tk recs) @ newerThan (now - ?w) [(trade, now)]"
        using newerThan_newerThan [OF c [OF False]] by simp
      finally show ?thesis using False by (simp add: old newerThan_def)
    qed
    finally show ?thesis using True by (simp add: r ticksOf_snoc)
  qed
qed

lemma recordAll_window:
  assumes srt: "sorted (map fst (recs @ [(now, trade)]))"
  shows "map_of (recordAll cfg (recs @ [(now, trade)]) []) (market_ticker trade) =
           Some (withinHalfOpen (now - MOMENTUM_WINDOW_SECONDS cfg * 1000) now
                  (ticksOf (market_ticker trade) (recs @ [(now, trade)])))"
proof -
  let ?tk = "market_ticker trade" and ?recs = "recs @ [(now, trade)]"
  let ?w = "MOMENTUM_WINDOW_SECONDS cfg * 1000"
  have le: "\<forall>t \<in> set (ticksOf ?tk ?recs). snd t \<le> now"
  proof
    fix t assume "t \<in> set (ticksOf ?tk ?recs)"
    then have "snd t \<in> fst ` set ?recs" by (rule ticksOf_times)
    with srt show "snd t \<le> now" by (auto simp: sorted_append)
  qed
  have "withinHalfOpen (now - ?w) now (ticksOf ?tk ?recs) = newerThan (now - ?w) (ticksOf ?tk ?recs)"
    unfolding newerThan_def withinHalfOpen_def using le by (intro filter_cong) auto
  then show ?thesis
    using recordAll_queue [OF srt, of cfg ?tk] by (simp add: ticksOf_snoc)
qed

text \<open>
  C7 (as amended). Recording a tick appends it to the queue of its ticker and then
  evicts exactly the entries whose timestamp is at most \<open>now - window\<close>. The
  snapshot is null exactly when the ticker has no queue or an empty one; for a
  queue with entries, the total volume is the sum of the tick sizes, the trade
  count is the length of the queue, the directional bias is the number of yes
  ticks over the trade count, and the price change is the price of the last entry
  minus the price of the first. When the clock does not go back, the queue after a
  record holds exactly the ticks of that ticker recorded at a time in the
  half-open interval \<open>(now - window, now]\<close>: a tick recorded at exactly
  \<open>now - window\<close> is evicted, and older ticks do not contribute to the snapshot.
\<close>

theorem momentum_window:
  "map_of (addTradeToMomentum cfg now trade mt) (market_ticker trade) =
     Some (filter (\<lambda>t. \<not> snd t \<le> now - MOMENTUM_WINDOW_SECONDS cfg * 1000)
            ((case map_of mt (market_ticker trade) of None \<Rightarrow> [] | Some q \<Rightarrow> q) @ [(trade, now)]))
   \<and> (calculateMomentumMetrics mt tk = None \<longleftrightarrow> (map_of mt tk = None \<or> map_of mt tk = Some []))
   \<and> (map_of mt tk = Some q \<and> q \<noteq> [] \<longrightarrow>
        calculateMomentumMetrics mt tk =
          Some \<lparr> totalVolume = sum_list (map (\<lambda>t. count (fst t)) q),
                 tradeCount = length q,
                 yesCount = length (filter (\<lambda>t. taker_side (fst t) = Yes) q),
                 noCount = length (filter (\<lambda>t. taker_side (fst t) \<noteq> Yes) q),
                 directionalBias =
                   of_nat (length (filter (\<lambda>t. taker_side (fst t) = Yes) q)) / of_nat (length q),
                 priceChange = price (fst (last q)) - price (fst (hd q)) \<rparr>)
   \<and> (sorted (map fst (recs @ [(now, trade)])) \<longrightarrow>
        map_of (recordAll cfg (recs @ [(now, trade)]) []) (market_ticker trade) =
          Some (withinHalfOpen (now - MOMENTUM_WINDOW_SECONDS cfg * 1000) now
                 (ticksOf (market_ticker trade) (recs @ [(now, trade)]))))"
  using addTradeToMomentum_same [of cfg now trade mt]
        calculateMomentumMetrics_None [of mt tk]
        calculateMomentumMetrics_queue [of mt tk q]
        recordAll_window [of recs now trade cfg]
  by blast

theorem momentum_window_witness:
  "sorted (map fst ([(1000 :: int, tick ''KX'' Yes 40 10)] @ [(61000, tick ''KX'' No 45 20)]))
   \<and> map_of (recordAll default_config ([(1000, tick ''KX'' Yes 40 10)] @ [(61000, tick ''KX'' No 45 20)]) [])
        (market_ticker (tick ''KX'' No 45 20)) = Some [(tick ''KX'' No 45 20, 61000)]
   \<and> map_of [(''KX'', [(tick ''KX'' No 45 20, 61000)])] ''KX'' = Some [(tick ''KX'' No 45 20, 61000)]
   \<and> [(tick ''KX'' No 45 20, 61000 :: int)] \<noteq> []
   \<and> calculateMomentumMetrics [(''KX'', [(tick ''KX'' No 45 20, 61000)])] ''KX'' =
       Some \<lparr> totalVolume = 20, tradeCount = 1, yesCount = 0, noCount = 1,
              directionalBias = 0, priceChange = 0 \<rparr>"
  using momentum_window [where cfg = default_config and now = 61000
          and trade = "tick ''KX'' No 45 20"
          and mt = "[(''KX'', [(tick ''KX'' No 45 20, 61000)])]" and tk = "''KX''"
          and q = "[(tick ''KX'' No 45 20, 61000)]" and recs = "[(1000, tick ''KX'' Yes 40 10)]"]
  by (simp add: default_config_def tick_def ticksOf_def withinHalfOpen_def)

text \<open>
  The tick recorded at exactly \<open>now - window\<close> lies in the closed interval
  \<open>[now - window, now]\<close> and is not counted.
\<close>

theorem momentum_window_counterexample:
  "calculateMomentumMetrics
     (recordAll default_config [(1000, tick ''KX'' Yes 40 10), (61000, tick ''KX'' No 45 20)] []) ''KX'' =
     Some \<lparr> totalVolume = 20, tradeCount = 1, yesCount = 0, noCount = 1,
            directionalBias = 0, priceChange = 0 \<rparr>
   \<and> length (withinClosed (61000 - MOMENTUM_WINDOW_SECONDS default_config * 1000) 61000
        (ticksOf ''KX'' [(1000, tick ''KX'' Yes 40 10), (61000, tick ''KX'' No 45 20)])) = 2"
  by (simp add: recordAll_def addTradeToMomentum_def calculateMomentumMetrics_def Let_def
        default_config_def tick_def ticksOf_def withinClosed_def)

section \<open>Opening a position: proofs\<close>


lemma delete_absent: "map_of al k = None \<Longrightarrow> AList.delete k al = al"
  by (simp add: map_of_eq_None_iff)

lemma dropCooldown_absent: "map_of (tickerCooldowns l) tk = None \<Longrightarrow> dropCooldown tk l = l"
  by (simp add: dropCooldown_def delete_absent)

lemma openPosition_sizing_eq:
  "openPosition_sizing cfg trade metrics l =
     (if js_le (contractsOf cfg trade metrics) (Num 0)
      then (Reject ZeroContracts, l,
            [Warn_CannotOpenPosition (market_ticker trade) (entryPriceOf trade metrics)
               (POSITION_SIZE_DOLLARS cfg)])
      else (Accept (sideOf metrics) (entryPriceOf trade metrics) (contractsOf cfg trade metrics), l,
            [Log_MomentumTriggered (market_ticker trade) (trade_id trade)]))"
  by (simp add: openPosition_sizing_def contractsOf_def entryPriceOf_def sideOf_def Let_def)

lemma openPosition_checks_eq:
  "openPosition_checks cfg now trade metrics l =
     (if hasPosition (market_ticker trade) l then (Reject HasPosition, l, [])
      else if atCap cfg l then (Reject MaxPositions, l, [])
      else if inCooldown cfg now (market_ticker trade) l then (Reject InCooldown, l, [])
      else openPosition_sizing cfg trade metrics (dropCooldown (market_ticker trade) l))"
  by (auto simp: openPosition_checks_def hasPosition_def atCap_def inCooldown_def Let_def
        dropCooldown_absent split: option.splits)
     (simp_all add: dropCooldown_def)

lemma openPosition_paper_eq:
  "openPosition_paper now trade metrics (sideOf metrics) (entryPriceOf trade metrics)
      (contractsOf cfg trade metrics) l =
     (Opened,
      l\<lparr>positions := AList.update (market_ticker trade) (paperPosition cfg now trade metrics) (positions l),
        positionMomentumMetrics :=
          AList.update (market_ticker trade) metrics (positionMomentumMetrics l)\<rparr>,
      [File_MomentumSignal (market_ticker trade) (trade_id trade) True,
       Log_OpenedPaperPosition (market_ticker trade)])"
  by (simp add: openPosition_paper_def paperPosition_def Let_def)

lemma openPosition_eq:
  "openPosition cfg now later ext trade metrics l =
     (if hasPosition (market_ticker trade) l then (HasPosition, l, [])
      else if atCap cfg l then (MaxPositions, l, [])
      else if inCooldown cfg now (market_ticker trade) l then (InCooldown, l, [])
      else if js_le (contractsOf cfg trade metrics) (Num 0)
        then (ZeroContracts, dropCooldown (market_ticker trade) l,
              [Warn_CannotOpenPosition (market_ticker trade) (entryPriceOf trade metrics)
                 (POSITION_SIZE_DOLLARS cfg)])
      else
        (case (if PAPER_TRADE_ONLY cfg
               then openPosition_paper now trade metrics (sideOf metrics)
                      (entryPriceOf trade metrics) (contractsOf cfg trade metrics)
                      (dropCooldown (market_ticker trade) l)
               else openPosition_live later ext trade metrics (sideOf metrics)
                      (entryPriceOf trade metrics) (contractsOf cfg trade metrics)
                      (dropCooldown (market_ticker trade) l)) of
           (r, l2, ev2) \<Rightarrow>
             (r, l2, Log_MomentumTriggered (market_ticker trade) (trade_id trade) # ev2)))"
  by (simp add: openPosition_def openPosition_checks_eq openPosition_sizing_eq)



section \<open>The bounds of the ledger: proofs\<close>

lemma length_update_present: "map_of al k = Some v \<Longrightarrow> length (AList.update k v' al) = length al"
  by (induction al) (auto split: if_splits)

lemma length_update_le: "length (AList.update k v al) \<le> Suc (length al)"
  by (induction al) auto

lemma noGrowth_refl: "noGrowth l l"
  by (simp add: noGrowth_def)

lemma noGrowth_trans: "noGrowth l l1 \<Longrightarrow> noGrowth l1 l2 \<Longrightarrow> noGrowth l l2"
  by (auto simp: noGrowth_def)

lemma noGrowth_mutatePosition: "noGrowth l (mutatePosition tk a b l)"
  by (simp add: noGrowth_def mutatePosition_def distinct_update length_update_present)

lemma noGrowth_recordClose: "noGrowth l (recordClose tk ct cd l)"
  by (simp add: noGrowth_def recordClose_def distinct_delete length_delete_le)

lemma noGrowth_checkPosition_close:
  "noGrowth l (fst (checkPosition_close cfg env tk position cp pl pp rs l))"
  by (simp add: checkPosition_close_def Let_def noGrowth_refl noGrowth_recordClose
        split: live_exit.splits)

lemma noGrowth_checkPosition_noPrice:
  "noGrowth l (fst (checkPosition_noPrice cfg env tk position l))"
  by (simp add: checkPosition_noPrice_def Let_def noGrowth_refl noGrowth_recordClose)

lemma noGrowth_progressUpdate: "noGrowth l (fst (progressUpdate tk position pl pp l))"
  by (simp add: progressUpdate_def Let_def noGrowth_refl noGrowth_mutatePosition)

lemma noGrowth_debugLog: "noGrowth l (fst (snd (debugLog env tk position l)))"
  by (simp add: debugLog_def Let_def noGrowth_refl noGrowth_mutatePosition)

lemma noGrowth_checkPosition: "noGrowth l (fst (checkPosition cfg env tk position l))"
proof (cases "prices env")
  case None
  then show ?thesis by (simp add: checkPosition_def noGrowth_checkPosition_noPrice)
next
  case (Some pr)
  obtain y n where pr: "pr = (y, n)" by (cases pr)
  obtain p1 l1 ev1 where d: "debugLog env tk position l = (p1, l1, ev1)"
    by (cases "debugLog env tk position l")
  have g1: "noGrowth l l1" using noGrowth_debugLog [of l env tk position] by (simp add: d)
  have g2: "noGrowth l1 (fst (checkPosition cfg env tk position l))"
    using Some
    by (simp add: checkPosition_def pr d Let_def split_beta noGrowth_checkPosition_close
          noGrowth_progressUpdate split: option.splits)
  from g1 g2 show ?thesis by (rule noGrowth_trans)
qed

lemma noGrowth_closePositionManually:
  "noGrowth l (fst (snd (closePositionManually cfg env tk rs l)))"
  by (simp add: closePositionManually_def Let_def noGrowth_refl noGrowth_recordClose
        split: option.splits prod.splits live_exit.splits)

lemma noGrowth_orderFilled: "noGrowth l (orderFilled tk position l)"
  by (simp add: orderFilled_def noGrowth_mutatePosition)

lemma noGrowth_inv: "noGrowth l l' \<Longrightarrow> ledger_inv cfg l \<Longrightarrow> ledger_inv cfg l'"
  by (auto simp: noGrowth_def ledger_inv_def)

lemma dropCooldown_positions [simp]: "positions (dropCooldown tk l) = positions l"
  by (simp add: dropCooldown_def)

lemma ledger_inv_insert:
  assumes "ledger_inv cfg l" "\<not> atCap cfg l"
  shows "ledger_inv cfg (dropCooldown tk l
           \<lparr>positions := AList.update tk p (positions (dropCooldown tk l)),
            positionMomentumMetrics := m\<rparr>)"
  using assms length_update_le [of tk p "positions l"]
  by (simp add: ledger_inv_def atCap_def distinct_update)

lemma openPosition_live_cases:
  "fst (snd (openPosition_live later ext trade metrics sd ep cn l)) = l \<or>
   (\<exists>p. fst (snd (openPosition_live later ext trade metrics sd ep cn l)) =
      l\<lparr>positions := AList.update (market_ticker trade) p (positions l),
        positionMomentumMetrics := AList.update (market_ticker trade) metrics (positionMomentumMetrics l)\<rparr>)"
  by (cases ext) (auto simp: openPosition_live_def Let_def)

lemma ledger_inv_dropCooldown: "ledger_inv cfg (dropCooldown tk l) = ledger_inv cfg l"
  by (simp add: ledger_inv_def)

lemma ledger_inv_openPosition:
  assumes "ledger_inv cfg l"
  shows "ledger_inv cfg (fst (snd (openPosition cfg now later ext trade metrics l)))"
proof -
  let ?tk = "market_ticker trade"
  note ins = ledger_inv_insert [OF assms, where tk = ?tk]
  have live: "\<not> atCap cfg l \<Longrightarrow>
      ledger_inv cfg (fst (snd (openPosition_live later ext trade metrics sd ep cn (dropCooldown ?tk l))))"
    for sd ep cn
    using openPosition_live_cases [of later ext trade metrics sd ep cn "dropCooldown ?tk l"]
          ins assms
    by (auto simp: ledger_inv_dropCooldown)
  show ?thesis
    using assms live ins
    by (simp add: openPosition_eq openPosition_paper_eq ledger_inv_dropCooldown split_beta)
qed

lemma openPosition_checks_ledger:
  "fst (snd (openPosition_checks cfg now trade metrics l)) = l \<or>
   fst (snd (openPosition_checks cfg now trade metrics l)) = dropCooldown (market_ticker trade) l"
  by (simp add: openPosition_checks_eq openPosition_sizing_eq)

lemma openPosition_checks_Accept:
  "openPosition_checks cfg now trade metrics l = (Accept sd ep cn, l1, ev) \<Longrightarrow>
   \<not> atCap cfg l \<and> l1 = dropCooldown (market_ticker trade) l \<and> sd = sideOf metrics \<and>
   ep = entryPriceOf trade metrics \<and> cn = contractsOf cfg trade metrics"
  by (simp add: openPosition_checks_eq openPosition_sizing_eq split: if_splits)

lemma step_atomic:
  assumes inv: "ledger_inv cfg l" and at: "PAPER_TRADE_ONLY cfg \<or> atomic x"
  shows "ledger_inv cfg (fst (step cfg (l, []) x)) \<and> snd (step cfg (l, []) x) = []"
proof (cases x)
  case (Open now later ext trade metrics)
  then show ?thesis using ledger_inv_openPosition [OF inv] by simp
next
  case (OpenBegin now trade metrics)
  with at have paper: "PAPER_TRADE_ONLY cfg" by simp
  obtain c l1 ev where c: "openPosition_checks cfg now trade metrics l = (c, l1, ev)"
    by (cases "openPosition_checks cfg now trade metrics l")
  show ?thesis
  proof (cases c)
    case (Reject r)
    have "l1 = l \<or> l1 = dropCooldown (market_ticker trade) l"
      using openPosition_checks_ledger [of cfg now trade metrics l] by (simp add: c)
    then show ?thesis using inv by (auto simp: OpenBegin c Reject ledger_inv_dropCooldown)
  next
    case (Accept sd ep cn)
    note a = openPosition_checks_Accept [OF c [unfolded Accept]]
    show ?thesis
      using a paper ledger_inv_insert [OF inv, where tk = "market_ticker trade"]
      by (simp add: OpenBegin c Accept openPosition_paper_eq)
  qed
next
  case (OpenEnd i later ext)
  then show ?thesis using inv by simp
next
  case (Check env tk position)
  then show ?thesis using noGrowth_inv [OF noGrowth_checkPosition inv] by simp
next
  case (ManualClose env tk rs)
  then show ?thesis using noGrowth_inv [OF noGrowth_closePositionManually inv] by simp
next
  case (Filled tk position)
  then show ?thesis using noGrowth_inv [OF noGrowth_orderFilled inv] by simp
qed

lemma foldl_step_atomic:
  assumes "ledger_inv cfg l" "PAPER_TRADE_ONLY cfg \<or> list_all atomic ops"
  shows "ledger_inv cfg (fst (foldl (step cfg) (l, []) ops)) \<and> snd (foldl (step cfg) (l, []) ops) = []"
  using assms
proof (induction ops arbitrary: l)
  case Nil
  then show ?case by simp
next
  case (Cons x ops)
  from Cons.prems have at: "PAPER_TRADE_ONLY cfg \<or> atomic x" by auto
  note s = step_atomic [OF Cons.prems(1) at]
  obtain l' where l': "step cfg (l, []) x = (l', [])" using s by (cases "step cfg (l, []) x") auto
  with s have "ledger_inv cfg l'" by simp
  from Cons.IH [OF this] Cons.prems(2) show ?case by (auto simp: l')
qed

text \<open>
  The bounds hold in every ledger that a run reaches in which each open runs from
  its checks to its end without another handler in between: every run in paper
  mode, and the runs of live mode whose opens are single steps.
\<close>

lemma serial_runs_keep_bounds:
  assumes "0 \<le> MAX_OPEN_POSITIONS cfg" "PAPER_TRADE_ONLY cfg \<or> list_all atomic ops"
  shows "ledger_inv cfg (fst (run cfg ops))"
proof -
  have "ledger_inv cfg empty_ledger" using assms(1) by (simp add: ledger_inv_def empty_ledger_def)
  from foldl_step_atomic [OF this assms(2)] show ?thesis by (simp add: run_def)
qed

text \<open>
  C2. In live mode \<open>openPosition\<close> awaits between its check of the cap and the
  insertion of the position. Two feed handlers for different tickers that both
  pass the check while no position is stored both insert: the ledger then holds
  two positions under a cap of one.
\<close>

theorem live_opens_exceed_cap:
  "length (positions (fst (run live_config
      [OpenBegin 1000 (tick ''KXA'' Yes 40 100) strongYes,
       OpenBegin 1001 (tick ''KXB'' Yes 50 100) strongYes,
       OpenEnd 0 1500 (EntryOrdered ''sigA'' Sync),
       OpenEnd 0 1501 (EntryOrdered ''sigB'' Sync)]))) = 2
   \<and> MAX_OPEN_POSITIONS live_config = 1"
  by code_simp

section \<open>Exit monitor: proofs\<close>

lemma recordClose_simps [simp]:
  "closedTrades (recordClose tk ct cd l) = closedTrades l @ [ct]"
  "positions (recordClose tk ct cd l) = AList.delete tk (positions l)"
  "positionMomentumMetrics (recordClose tk ct cd l) = AList.delete tk (positionMomentumMetrics l)"
  "tickerCooldowns (recordClose tk ct (Some c) l) = AList.update tk c (tickerCooldowns l)"
  "tickerCooldowns (recordClose tk ct None l) = tickerCooldowns l"
  by (simp_all add: recordClose_def)

lemma closedTradeOf_simps [simp]:
  "ClosedTrade.ticker (closedTradeOf tk position xp xt dur pl pp rs l) = tk"
  "ClosedTrade.side (closedTradeOf tk position xp xt dur pl pp rs l) = Position.side position"
  "ClosedTrade.entryPrice (closedTradeOf tk position xp xt dur pl pp rs l) = Position.entryPrice position"
  "exitPrice (closedTradeOf tk position xp xt dur pl pp rs l) = xp"
  "ClosedTrade.entryTime (closedTradeOf tk position xp xt dur pl pp rs l) = Position.entryTime position"
  "exitTime (closedTradeOf tk position xp xt dur pl pp rs l) = xt"
  "duration (closedTradeOf tk position xp xt dur pl pp rs l) = dur"
  "pnl (closedTradeOf tk position xp xt dur pl pp rs l) = pl"
  "pnlPercent (closedTradeOf tk position xp xt dur pl pp rs l) = pp"
  "reason (closedTradeOf tk position xp xt dur pl pp rs l) = rs"
  "momentumMetrics (closedTradeOf tk position xp xt dur pl pp rs l) = entryMetrics tk l"
  by (simp_all add: closedTradeOf_def)

lemma map_of_delete_same [simp]: "map_of (AList.delete k al) k = None"
  by (simp add: delete_conv')

lemma map_of_update_same [simp]: "map_of (AList.update k v al) k = Some v"
  by (simp add: update_conv')

lemma mutatePosition_simps [simp]:
  "closedTrades (mutatePosition tk a b l) = closedTrades l"
  "tickerCooldowns (mutatePosition tk a b l) = tickerCooldowns l"
  "positionMomentumMetrics (mutatePosition tk a b l) = positionMomentumMetrics l"
  by (simp_all add: mutatePosition_def)

lemma mutatePosition_stored:
  "map_of (positions l) tk = Some a \<Longrightarrow> map_of (positions (mutatePosition tk a b l)) tk = Some b"
  by (simp add: mutatePosition_def)

lemma mutatePosition_same: "mutatePosition tk a a l = l"
  by (simp add: mutatePosition_def update_triv)

lemma mutatePosition_twice:
  "map_of (positions l) tk = Some a \<Longrightarrow>
   mutatePosition tk b c (mutatePosition tk a b l) = mutatePosition tk a c l"
  by (simp add: mutatePosition_def)

lemma mutatePosition_keys: "map fst (positions (mutatePosition tk a b l)) = map fst (positions l)"
proof -
  have "map_of al k = Some v \<Longrightarrow> map fst (AList.update k v' al) = map fst al" for al :: "(string \<times> Position) list" and k v v'
    by (induction al) (auto split: if_splits)
  then show ?thesis by (simp add: mutatePosition_def)
qed

lemma mutatePosition_other:
  "tk' \<noteq> tk \<Longrightarrow> map_of (positions (mutatePosition tk a b l)) tk' = map_of (positions l) tk'"
  by (simp add: mutatePosition_def update_conv')

lemma entryMetrics_mutatePosition [simp]: "entryMetrics tk' (mutatePosition tk a b l) = entryMetrics tk' l"
  by (simp add: entryMetrics_def)

lemma debugLog_eq:
  "debugLog env tk position l =
     (if debugDue env position
      then (position\<lparr>lastDebugLogTime := Some (t_priced env)\<rparr>,
            mutatePosition tk position (position\<lparr>lastDebugLogTime := Some (t_priced env)\<rparr>) l,
            [Log_PositionDebug tk])
      else (position, l, []))"
  by (simp add: debugLog_def debugDue_def Let_def)

lemma progressUpdate_eq:
  "progressUpdate tk position pl pp l =
     (if pnlMoved position pp
      then (mutatePosition tk position (position\<lparr>lastLoggedPnLPercent := Some pp\<rparr>) l,
            [Log_PositionUpdate tk pl pp])
      else (l, []))"
  by (simp add: progressUpdate_def pnlMoved_def Let_def)

lemma checkPosition_priced:
  assumes "prices env = Some pr"
  shows "checkPosition cfg env tk position l =
     (case debugLog env tk position l of
        (position1, l1, ev1) \<Rightarrow>
          (case (case exitRule cfg (calculatePnLPercentage position (priceFor position pr)) of
                   Some closeReason \<Rightarrow>
                     checkPosition_close cfg env tk position1 (priceFor position pr)
                       (calculatePnL position (priceFor position pr))
                       (calculatePnLPercentage position (priceFor position pr)) closeReason l1
                 | None \<Rightarrow>
                     progressUpdate tk position1 (calculatePnL position (priceFor position pr))
                       (calculatePnLPercentage position (priceFor position pr)) l1) of
             (l2, ev2) \<Rightarrow> (l2, ev1 @ ev2)))"
proof -
  obtain a b where pr: "pr = (a, b)" by (cases pr)
  show ?thesis
    unfolding checkPosition_def priceFor_def Let_def assms pr fst_conv snd_conv option.case prod.case
    by (rule refl)
qed

lemma checkPosition_p2_priced:
  assumes "prices env = Some pr"
  shows "checkPosition_p2 cfg env tk position l =
     (case exitRule cfg (calculatePnLPercentage position (priceFor position pr)) of
        Some closeReason \<Rightarrow>
          checkPosition_close_p2 cfg env tk position (priceFor position pr)
            (calculatePnL position (priceFor position pr))
            (calculatePnLPercentage position (priceFor position pr)) closeReason l
      | None \<Rightarrow>
          progressUpdate tk position (calculatePnL position (priceFor position pr))
            (calculatePnLPercentage position (priceFor position pr)) l)"
proof -
  obtain a b where pr: "pr = (a, b)" by (cases pr)
  show ?thesis
    unfolding checkPosition_p2_def priceFor_def Let_def assms pr fst_conv snd_conv option.case prod.case
    by (rule refl)
qed

text \<open>The pass over a position that no exit rule closes.\<close>

lemma checkPosition_kept:
  assumes "prices env = Some pr" "map_of (positions l) tk = Some position"
    and "exitRule cfg (calculatePnLPercentage position (priceFor position pr)) = None"
  shows "checkPosition cfg env tk position l =
     (mutatePosition tk position
        (position\<lparr>lastDebugLogTime :=
                    (if debugDue env position then Some (t_priced env) else lastDebugLogTime position),
                  lastLoggedPnLPercent :=
                    (if pnlMoved position (calculatePnLPercentage position (priceFor position pr))
                     then Some (calculatePnLPercentage position (priceFor position pr))
                     else lastLoggedPnLPercent position)\<rparr>) l,
      (if debugDue env position then [Log_PositionDebug tk] else []) @
      (if pnlMoved position (calculatePnLPercentage position (priceFor position pr))
       then [Log_PositionUpdate tk (calculatePnL position (priceFor position pr))
               (calculatePnLPercentage position (priceFor position pr))]
       else []))"
  using assms
  by (simp add: checkPosition_priced debugLog_eq progressUpdate_eq pnlMoved_def
        mutatePosition_twice mutatePosition_same)

lemma checkPosition_p2_kept:
  assumes "prices env = Some pr"
    and "exitRule cfg (calculatePnLPercentage position (priceFor position pr)) = None"
  shows "checkPosition_p2 cfg env tk position l =
     (mutatePosition tk position
        (position\<lparr>lastLoggedPnLPercent :=
                    (if pnlMoved position (calculatePnLPercentage position (priceFor position pr))
                     then Some (calculatePnLPercentage position (priceFor position pr))
                     else lastLoggedPnLPercent position)\<rparr>) l,
      (if pnlMoved position (calculatePnLPercentage position (priceFor position pr))
       then [Log_PositionUpdate tk (calculatePnL position (priceFor position pr))
               (calculatePnLPercentage position (priceFor position pr))]
       else []))"
  using assms
  by (simp add: checkPosition_p2_priced progressUpdate_eq mutatePosition_same)

lemma js_sub_self_not_moved: "\<not> js_ge (js_abs (js_sub pp pp)) (Num (1 / 2))"
  by (cases pp) (simp_all add: js_sub_def js_ge_def js_le_def)

lemma pnlMoved_unset: "lastLoggedPnLPercent position = None \<Longrightarrow> \<not> pnlMoved position pp"
  by (simp add: pnlMoved_def js_sub_self_not_moved)

lemma recordClose_mutatePosition [simp]:
  "recordClose tk ct cd (mutatePosition tk a b l) = recordClose tk ct cd l"
  by (cases cd) (simp_all add: recordClose_def mutatePosition_def delete_update_same)

lemma closedTradeOf_debug [simp]:
  "closedTradeOf tk (position\<lparr>lastDebugLogTime := x\<rparr>) xp xt dur pl pp rs (mutatePosition tk a b l) =
   closedTradeOf tk position xp xt dur pl pp rs l"
  "closedTradeOf tk (position\<lparr>lastDebugLogTime := x\<rparr>) xp xt dur pl pp rs l =
   closedTradeOf tk position xp xt dur pl pp rs l"
  by (simp_all add: closedTradeOf_def)

lemma unfilled_debug [simp]: "unfilled (position\<lparr>lastDebugLogTime := x\<rparr>) = unfilled position"
  by (simp add: unfilled_def)

text \<open>The closed trade that an exit-rule or manual close at time \<open>xt\<close> appends.\<close>

lemma exitRule_eq:
  "exitRule cfg pp =
     (if (\<exists>pt. PROFIT_TARGET cfg = Some pt \<and> js_ge pp (Num (pt * 100)))
      then Some (ProfitTargetReached pp)
      else if (\<exists>sl. STOP_LOSS cfg = Some sl \<and> js_le pp (Num (- sl * 100)))
      then Some (StopLossHit pp)
      else None)"
  by (auto simp: exitRule_def profitTargetHit_def stopLossHit_def split: option.splits)

lemma checkPosition_closed_paper:
  assumes "prices env = Some pr" "PAPER_TRADE_ONLY cfg"
    and "exitRule cfg (calculatePnLPercentage position (priceFor position pr)) = Some r"
  shows "fst (checkPosition cfg env tk position l) =
     recordClose tk
       (closedTradeOf tk position (priceFor position pr) (t_priced env)
          (of_int (t_priced env - Position.entryTime position) / 1000)
          (js_div (calculatePnL position (priceFor position pr)) (Num 100))
          (calculatePnLPercentage position (priceFor position pr)) r l)
       (Some \<lparr> timestamp = t_priced env,
               wasWin = js_gt (calculatePnL position (priceFor position pr)) (Num 0) \<rparr>) l"
  using assms
  by (simp add: checkPosition_priced debugLog_eq checkPosition_close_def Let_def)

lemma checkPosition_closed_live:
  assumes "prices env = Some pr" "\<not> PAPER_TRADE_ONLY cfg"
    and "exitRule cfg (calculatePnLPercentage position (priceFor position pr)) = Some r"
  shows "fst (checkPosition cfg env tk position l) =
     (if unfilled position then (if debugDue env position
         then mutatePosition tk position (position\<lparr>lastDebugLogTime := Some (t_priced env)\<rparr>) l else l)
      else case live env of
        ExitSold \<Rightarrow>
          recordClose tk
            (closedTradeOf tk position (priceFor position pr) (t_sold env)
               (of_int (t_sold env - Position.entryTime position) / 1000)
               (js_div (calculatePnL position (priceFor position pr)) (Num 100))
               (calculatePnLPercentage position (priceFor position pr)) r l)
            (Some \<lparr> timestamp = t_sold env,
                    wasWin = js_gt (calculatePnL position (priceFor position pr)) (Num 0) \<rparr>) l
      | ExitNoTokens \<Rightarrow>
          recordClose tk
            (closedTradeOf tk position (priceFor position pr) (t_sold env)
               (of_int (t_sold env - Position.entryTime position) / 1000)
               (js_div (calculatePnL position (priceFor position pr)) (Num 100))
               (calculatePnLPercentage position (priceFor position pr)) (NoTokensFound r) l)
            None l
      | _ \<Rightarrow> (if debugDue env position
         then mutatePosition tk position (position\<lparr>lastDebugLogTime := Some (t_priced env)\<rparr>) l else l))"
  using assms
  by (simp add: checkPosition_priced debugLog_eq checkPosition_close_def Let_def
        split: live_exit.splits)

lemma checkPosition_p2_closed:
  assumes "prices env = Some pr"
    and "exitRule cfg (calculatePnLPercentage position (priceFor position pr)) = Some r"
  shows "fst (checkPosition_p2 cfg env tk position l) =
     recordClose tk
       (closedTradeOf tk position (priceFor position pr) (t_priced env)
          (of_int (t_priced env - Position.entryTime position) / 1000)
          (js_div (calculatePnL position (priceFor position pr)) (Num 100))
          (calculatePnLPercentage position (priceFor position pr)) r l)
       (if (if js_gt (calculatePnL position (priceFor position pr)) (Num 0)
            then WIN_COOLDOWN_ENABLED cfg else LOSS_COOLDOWN_ENABLED cfg)
        then Some \<lparr> timestamp = t_priced env,
                    wasWin = js_gt (calculatePnL position (priceFor position pr)) (Num 0) \<rparr>
        else None) l"
  using assms
  by (simp add: checkPosition_p2_priced checkPosition_close_p2_def Let_def)

lemma kept_stored:
  assumes "map_of (positions l) tk = Some position"
  shows "map_of (positions (if c then mutatePosition tk position p' l else l)) tk \<noteq> None"
  using assms by (simp add: mutatePosition_stored)

text \<open>
  C6. Without a price, a position older than \<open>MAX_POSITION_AGE_MS\<close> is closed
  at its entry price with pnl 0, pnl percent 0 and the reason that names the
  missing price data; a position whose age is at most the threshold is left as it
  is, with all of the ledger, and the only output is the warning that is written
  once the age is above 30 seconds. Both variants behave so.
\<close>

theorem stale_position:
  "prices env = None \<longrightarrow>
     (t_start env - Position.entryTime position > MAX_POSITION_AGE_MS cfg \<longrightarrow>
        (\<forall>l' \<in> {fst (checkPosition cfg env tk position l), fst (checkPosition_p2 cfg env tk position l)}.
           closedTrades l' =
             closedTrades l @
               [closedTradeOf tk position (Num (Position.entryPrice position)) (t_priced env)
                  (of_int (t_start env - Position.entryTime position) / 1000) (Num 0) (Num 0)
                  (ForceClosedNoPrice (MAX_POSITION_AGE_MS cfg)) l]
           \<and> exitPrice (last (closedTrades l')) = Num (Position.entryPrice position)
           \<and> pnl (last (closedTrades l')) = Num 0
           \<and> pnlPercent (last (closedTrades l')) = Num 0
           \<and> reason (last (closedTrades l')) = ForceClosedNoPrice (MAX_POSITION_AGE_MS cfg)
           \<and> positions l' = AList.delete tk (positions l)
           \<and> map_of (positions l') tk = None))
   \<and> (t_start env - Position.entryTime position \<le> MAX_POSITION_AGE_MS cfg \<longrightarrow>
        (\<forall>r \<in> {checkPosition cfg env tk position l, checkPosition_p2 cfg env tk position l}.
           fst r = l
           \<and> snd r = (if t_start env - Position.entryTime position > 30000
                      then [Warn_CannotFetchPrice tk (t_start env - Position.entryTime position)]
                      else [])))"
  by (simp add: checkPosition_def checkPosition_p2_def checkPosition_noPrice_def
        checkPosition_noPrice_p2_def Let_def)

theorem stale_position_witness:
  "prices (noPriceAt 301000) = None
   \<and> t_start (noPriceAt 301000) - Position.entryTime positionKX > MAX_POSITION_AGE_MS default_config
   \<and> map_of (positions ledgerKX) ''KX'' = Some positionKX
   \<and> positions (fst (checkPosition default_config (noPriceAt 301000) ''KX'' positionKX ledgerKX)) = []
   \<and> pnl (last (closedTrades (fst (checkPosition default_config (noPriceAt 301000) ''KX'' positionKX ledgerKX)))) = Num 0
   \<and> reason (last (closedTrades (fst (checkPosition default_config (noPriceAt 301000) ''KX'' positionKX ledgerKX))))
       = ForceClosedNoPrice 300000
   \<and> prices (noPriceAt 100000) = None
   \<and> t_start (noPriceAt 100000) - Position.entryTime positionKX \<le> MAX_POSITION_AGE_MS default_config
   \<and> checkPosition default_config (noPriceAt 100000) ''KX'' positionKX ledgerKX
       = (ledgerKX, [Warn_CannotFetchPrice ''KX'' 100000])"
proof -
  have h1: "prices (noPriceAt 301000) = None"
    and h2: "t_start (noPriceAt 301000) - Position.entryTime positionKX > MAX_POSITION_AGE_MS default_config"
    and h3: "prices (noPriceAt 100000) = None"
    and h4: "t_start (noPriceAt 100000) - Position.entryTime positionKX \<le> MAX_POSITION_AGE_MS default_config"
    and h5: "map_of (positions ledgerKX) ''KX'' = Some positionKX"
    and h6: "AList.delete ''KX'' (positions ledgerKX) = []"
    by code_simp+
  note a = stale_position [where env = "noPriceAt 301000" and position = positionKX
      and cfg = default_config and tk = "''KX''" and l = ledgerKX]
  note b = stale_position [where env = "noPriceAt 100000" and position = positionKX
      and cfg = default_config and tk = "''KX''" and l = ledgerKX]
  from a h1 h2 have c1:
    "positions (fst (checkPosition default_config (noPriceAt 301000) ''KX'' positionKX ledgerKX)) = AList.delete ''KX'' (positions ledgerKX)"
    "pnl (last (closedTrades (fst (checkPosition default_config (noPriceAt 301000) ''KX'' positionKX ledgerKX)))) = Num 0"
    "reason (last (closedTrades (fst (checkPosition default_config (noPriceAt 301000) ''KX'' positionKX ledgerKX))))
       = ForceClosedNoPrice (MAX_POSITION_AGE_MS default_config)"
    by simp_all
  have m: "MAX_POSITION_AGE_MS default_config = 300000" by (simp add: default_config_def)
  have age: "t_start (noPriceAt 100000) - Position.entryTime positionKX = 100000" by code_simp
  from b h3 h4 have c2:
    "checkPosition default_config (noPriceAt 100000) ''KX'' positionKX ledgerKX
       = (ledgerKX, [Warn_CannotFetchPrice ''KX'' 100000])"
    by (simp add: age prod_eq_iff)
  show ?thesis using h1 h2 h3 h4 h5 h6 c1 c2 m by simp
qed

lemma closedFor_recordClose:
  "closedFor tk l (recordClose tk (closedTradeOf tk position xp xt dur pl pp rs l0) cd l) rs pp"
  by (simp add: closedFor_def)

lemma keptOpen_mutate:
  "map_of (positions l) tk = Some position \<Longrightarrow>
   keptOpen tk l (if c then mutatePosition tk position p' l else l)"
  by (simp add: keptOpen_def mutatePosition_stored)

lemma keptOpen_mutate':
  "map_of (positions l) tk = Some position \<Longrightarrow> keptOpen tk l (mutatePosition tk position p' l)"
  by (simp add: keptOpen_def mutatePosition_stored)

text \<open>
  C5 (as amended). The exit rule fires for a pnl percent \<open>pp\<close> exactly when a
  profit target is configured and \<open>pp >= target * 100\<close>, or a stop loss is
  configured and \<open>pp <= - stop * 100\<close>; the profit target is tested first, and
  the reason names the rule that fired and carries \<open>pp\<close>. With a price for an
  open position: in paper mode of the newer variant and in the older variant the
  position is closed with that reason when the rule fires and stays open when it
  does not. In live mode the position stays open when the rule does not fire;
  when it fires, the position is closed only if its entry order is filled and the
  sell path ends in a sale (reason of the rule) or finds no tokens (reason of the
  rule with the note that no tokens were found); otherwise it stays open.
\<close>

theorem exit_rules:
  "exitRule cfg pp =
     (if (\<exists>pt. PROFIT_TARGET cfg = Some pt \<and> js_ge pp (Num (pt * 100)))
      then Some (ProfitTargetReached pp)
      else if (\<exists>sl. STOP_LOSS cfg = Some sl \<and> js_le pp (Num (- sl * 100)))
      then Some (StopLossHit pp)
      else None)
   \<and> (prices env = Some pr \<and> map_of (positions l) tk = Some position \<and>
       q = calculatePnLPercentage position (priceFor position pr) \<longrightarrow>
        (case exitRule cfg q of
           None \<Rightarrow>
             keptOpen tk l (fst (checkPosition cfg env tk position l)) \<and>
             keptOpen tk l (fst (checkPosition_p2 cfg env tk position l))
         | Some r \<Rightarrow>
             closedFor tk l (fst (checkPosition_p2 cfg env tk position l)) r q \<and>
             (PAPER_TRADE_ONLY cfg \<longrightarrow>
                closedFor tk l (fst (checkPosition cfg env tk position l)) r q) \<and>
             (\<not> PAPER_TRADE_ONLY cfg \<longrightarrow>
                (if unfilled position
                 then keptOpen tk l (fst (checkPosition cfg env tk position l))
                 else case live env of
                        ExitSold \<Rightarrow> closedFor tk l (fst (checkPosition cfg env tk position l)) r q
                      | ExitNoTokens \<Rightarrow>
                          closedFor tk l (fst (checkPosition cfg env tk position l))
                            (NoTokensFound r) q
                      | _ \<Rightarrow> keptOpen tk l (fst (checkPosition cfg env tk position l))))))"
proof (intro conjI impI)
  show "exitRule cfg pp =
     (if (\<exists>pt. PROFIT_TARGET cfg = Some pt \<and> js_ge pp (Num (pt * 100)))
      then Some (ProfitTargetReached pp)
      else if (\<exists>sl. STOP_LOSS cfg = Some sl \<and> js_le pp (Num (- sl * 100)))
      then Some (StopLossHit pp)
      else None)"
    by (rule exitRule_eq)
next
  assume a: "prices env = Some pr \<and> map_of (positions l) tk = Some position \<and>
       q = calculatePnLPercentage position (priceFor position pr)"
  then have pr: "prices env = Some pr" and st: "map_of (positions l) tk = Some position"
    and q: "q = calculatePnLPercentage position (priceFor position pr)" by simp_all
  show "case exitRule cfg q of
           None \<Rightarrow>
             keptOpen tk l (fst (checkPosition cfg env tk position l)) \<and>
             keptOpen tk l (fst (checkPosition_p2 cfg env tk position l))
         | Some r \<Rightarrow>
             closedFor tk l (fst (checkPosition_p2 cfg env tk position l)) r q \<and>
             (PAPER_TRADE_ONLY cfg \<longrightarrow>
                closedFor tk l (fst (checkPosition cfg env tk position l)) r q) \<and>
             (\<not> PAPER_TRADE_ONLY cfg \<longrightarrow>
                (if unfilled position
                 then keptOpen tk l (fst (checkPosition cfg env tk position l))
                 else case live env of
                        ExitSold \<Rightarrow> closedFor tk l (fst (checkPosition cfg env tk position l)) r q
                      | ExitNoTokens \<Rightarrow>
                          closedFor tk l (fst (checkPosition cfg env tk position l))
                            (NoTokensFound r) q
                      | _ \<Rightarrow> keptOpen tk l (fst (checkPosition cfg env tk position l))))"
  proof (cases "exitRule cfg q")
    case None
    then show ?thesis
      using checkPosition_kept [OF pr st, of cfg] checkPosition_p2_kept [OF pr, of cfg position tk l]
      by (simp add: q keptOpen_mutate' [OF st])
  next
    case (Some r)
    have p2: "closedFor tk l (fst (checkPosition_p2 cfg env tk position l)) r q"
      using checkPosition_p2_closed [OF pr Some [unfolded q], of tk l]
      by (simp add: q closedFor_recordClose)
    have paper: "PAPER_TRADE_ONLY cfg \<Longrightarrow> closedFor tk l (fst (checkPosition cfg env tk position l)) r q"
      using checkPosition_closed_paper [OF pr _ Some [unfolded q], of tk l]
      by (simp add: q closedFor_recordClose)
    have live: "\<not> PAPER_TRADE_ONLY cfg \<Longrightarrow>
        (if unfilled position
         then keptOpen tk l (fst (checkPosition cfg env tk position l))
         else case live env of
                ExitSold \<Rightarrow> closedFor tk l (fst (checkPosition cfg env tk position l)) r q
              | ExitNoTokens \<Rightarrow>
                  closedFor tk l (fst (checkPosition cfg env tk position l)) (NoTokensFound r) q
              | _ \<Rightarrow> keptOpen tk l (fst (checkPosition cfg env tk position l)))"
      using checkPosition_closed_live [OF pr _ Some [unfolded q], of tk l]
      by (simp add: q closedFor_recordClose keptOpen_mutate [OF st] split: live_exit.splits)
    from p2 paper live show ?thesis by (simp add: Some)
  qed
qed

theorem exit_rules_witness:
  "prices (pricedAt 1000 (103 / 2) (97 / 2)) = Some (Num (103 / 2), Num (97 / 2))
   \<and> map_of (positions ledger50) ''KX'' = Some position50
   \<and> Num 3 = calculatePnLPercentage position50 (priceFor position50 (Num (103 / 2), Num (97 / 2)))
   \<and> PAPER_TRADE_ONLY target_config
   \<and> exitRule target_config (Num 3) = Some (ProfitTargetReached (Num 3))
   \<and> closedFor ''KX'' ledger50
        (fst (checkPosition target_config (pricedAt 1000 (103 / 2) (97 / 2)) ''KX'' position50 ledger50))
        (ProfitTargetReached (Num 3)) (Num 3)
   \<and> exitRule target_config (Num (- 25 / 2)) = Some (StopLossHit (Num (- 25 / 2)))
   \<and> js_le (Num 0) (Num (- 0 * 100))
   \<and> exitRule zero_target_config (Num 0) = Some (ProfitTargetReached (Num 0))
   \<and> prices (pricedAt 1000 (103 / 2) (97 / 2)) = Some (Num (103 / 2), Num (97 / 2))
   \<and> map_of (positions liveLedger) ''KX'' = Some livePosition
   \<and> Num 3 = calculatePnLPercentage livePosition (priceFor livePosition (Num (103 / 2), Num (97 / 2)))
   \<and> \<not> PAPER_TRADE_ONLY live_target_config
   \<and> unfilled livePosition
   \<and> keptOpen ''KX'' liveLedger
        (fst (checkPosition live_target_config (pricedAt 1000 (103 / 2) (97 / 2)) ''KX'' livePosition liveLedger))"
proof -
  have h: "prices (pricedAt 1000 (103 / 2) (97 / 2)) = Some (Num (103 / 2), Num (97 / 2))
     \<and> map_of (positions ledger50) ''KX'' = Some position50
     \<and> Num 3 = calculatePnLPercentage position50 (priceFor position50 (Num (103 / 2), Num (97 / 2)))"
    by code_simp
  have hl: "prices (pricedAt 1000 (103 / 2) (97 / 2)) = Some (Num (103 / 2), Num (97 / 2))
     \<and> map_of (positions liveLedger) ''KX'' = Some livePosition
     \<and> Num 3 = calculatePnLPercentage livePosition (priceFor livePosition (Num (103 / 2), Num (97 / 2)))"
    by code_simp
  have p: "PAPER_TRADE_ONLY target_config" "\<not> PAPER_TRADE_ONLY live_target_config"
    "unfilled livePosition" by code_simp+
  have e: "exitRule target_config (Num 3) = Some (ProfitTargetReached (Num 3))"
    "exitRule live_target_config (Num 3) = Some (ProfitTargetReached (Num 3))"
    by code_simp+
  have e2: "js_le (Num 0) (Num (- 0 * 100))" by code_simp
  have pt0: "PROFIT_TARGET zero_target_config = Some 0" "STOP_LOSS zero_target_config = Some 0"
    by (simp_all add: zero_target_config_def)
  have pt: "PROFIT_TARGET target_config = Some (1 / 40)" "STOP_LOSS target_config = Some (3 / 25)"
    by (simp_all add: target_config_def)
  have c1: "closedFor ''KX'' ledger50
        (fst (checkPosition target_config (pricedAt 1000 (103 / 2) (97 / 2)) ''KX'' position50 ledger50))
        (ProfitTargetReached (Num 3)) (Num 3)"
    using exit_rules [where cfg = target_config and env = "pricedAt 1000 (103 / 2) (97 / 2)"
        and pr = "(Num (103 / 2), Num (97 / 2))" and l = ledger50 and tk = "''KX''"
        and position = position50 and q = "Num 3", THEN conjunct2] h e p
    by simp
  have c2: "exitRule target_config (Num (- 25 / 2)) = Some (StopLossHit (Num (- 25 / 2)))"
    by code_simp
  have c3: "exitRule zero_target_config (Num 0) = Some (ProfitTargetReached (Num 0))"
    by code_simp
  have c4: "keptOpen ''KX'' liveLedger
        (fst (checkPosition live_target_config (pricedAt 1000 (103 / 2) (97 / 2)) ''KX'' livePosition liveLedger))"
    using exit_rules [where cfg = live_target_config and env = "pricedAt 1000 (103 / 2) (97 / 2)"
        and pr = "(Num (103 / 2), Num (97 / 2))" and l = liveLedger and tk = "''KX''"
        and position = livePosition and q = "Num 3", THEN conjunct2] hl e p
    by simp
  show ?thesis using h hl p e e2 c1 c2 c3 c4 by blast
qed

text \<open>
  In live mode the profit target is reached (3 percent against a target of 2.5)
  and the position, whose entry order is not filled, stays open.
\<close>

theorem exit_rules_counterexample:
  "prices (pricedAt 1000 (103 / 2) (97 / 2)) = Some (Num (103 / 2), Num (97 / 2))
   \<and> map_of (positions liveLedger) ''KX'' = Some livePosition
   \<and> calculatePnLPercentage livePosition (Num (103 / 2)) = Num 3
   \<and> PROFIT_TARGET live_target_config = Some (1 / 40)
   \<and> js_ge (Num 3) (Num (1 / 40 * 100))
   \<and> map_of (positions (fst (checkPosition live_target_config (pricedAt 1000 (103 / 2) (97 / 2))
                                ''KX'' livePosition liveLedger))) ''KX'' = Some livePosition
   \<and> closedTrades (fst (checkPosition live_target_config (pricedAt 1000 (103 / 2) (97 / 2))
                          ''KX'' livePosition liveLedger)) = []"
  by code_simp

text \<open>
  C9 (as amended). With a price for an open position and no exit rule firing, the
  pass changes nothing in the ledger but the position object stored under the
  ticker, and of that object only its logging watermarks: \<open>lastLoggedPnLPercent\<close>
  is set to the pnl percent exactly when the pnl percent has moved by at least 0.5
  from it, which is also exactly when the progress line is written; and, in the
  newer variant only, \<open>lastDebugLogTime\<close> is set to the current time when the
  debug line is due. Closed trades, cooldowns, entry metrics, the keys of the
  positions and the positions of other tickers are unchanged.
\<close>

theorem kept_position_frame:
  "prices env = Some pr \<and> map_of (positions l) tk = Some position \<and>
   q = calculatePnLPercentage position (priceFor position pr) \<and> exitRule cfg q = None \<longrightarrow>
     checkPosition cfg env tk position l =
       (mutatePosition tk position
          (position\<lparr>lastDebugLogTime :=
                      (if debugDue env position then Some (t_priced env)
                       else lastDebugLogTime position),
                    lastLoggedPnLPercent :=
                      (if pnlMoved position q then Some q else lastLoggedPnLPercent position)\<rparr>) l,
        (if debugDue env position then [Log_PositionDebug tk] else []) @
        (if pnlMoved position q
         then [Log_PositionUpdate tk (calculatePnL position (priceFor position pr)) q] else []))
     \<and> checkPosition_p2 cfg env tk position l =
       (mutatePosition tk position
          (position\<lparr>lastLoggedPnLPercent :=
                      (if pnlMoved position q then Some q else lastLoggedPnLPercent position)\<rparr>) l,
        (if pnlMoved position q
         then [Log_PositionUpdate tk (calculatePnL position (priceFor position pr)) q] else []))
     \<and> (\<forall>l' \<in> {fst (checkPosition cfg env tk position l), fst (checkPosition_p2 cfg env tk position l)}.
          closedTrades l' = closedTrades l \<and>
          tickerCooldowns l' = tickerCooldowns l \<and>
          positionMomentumMetrics l' = positionMomentumMetrics l \<and>
          map fst (positions l') = map fst (positions l) \<and>
          (\<forall>tk'. tk' \<noteq> tk \<longrightarrow> map_of (positions l') tk' = map_of (positions l) tk'))"
proof (intro impI)
  assume a: "prices env = Some pr \<and> map_of (positions l) tk = Some position \<and>
     q = calculatePnLPercentage position (priceFor position pr) \<and> exitRule cfg q = None"
  then have pr: "prices env = Some pr" and st: "map_of (positions l) tk = Some position"
    and q: "q = calculatePnLPercentage position (priceFor position pr)"
    and ex: "exitRule cfg (calculatePnLPercentage position (priceFor position pr)) = None"
    by auto
  note k1 = checkPosition_kept [OF pr st ex, folded q]
  note k2 = checkPosition_p2_kept [OF pr ex, folded q, of tk l]
  show "checkPosition cfg env tk position l =
       (mutatePosition tk position
          (position\<lparr>lastDebugLogTime :=
                      (if debugDue env position then Some (t_priced env)
                       else lastDebugLogTime position),
                    lastLoggedPnLPercent :=
                      (if pnlMoved position q then Some q else lastLoggedPnLPercent position)\<rparr>) l,
        (if debugDue env position then [Log_PositionDebug tk] else []) @
        (if pnlMoved position q
         then [Log_PositionUpdate tk (calculatePnL position (priceFor position pr)) q] else []))
     \<and> checkPosition_p2 cfg env tk position l =
       (mutatePosition tk position
          (position\<lparr>lastLoggedPnLPercent :=
                      (if pnlMoved position q then Some q else lastLoggedPnLPercent position)\<rparr>) l,
        (if pnlMoved position q
         then [Log_PositionUpdate tk (calculatePnL position (priceFor position pr)) q] else []))
     \<and> (\<forall>l' \<in> {fst (checkPosition cfg env tk position l), fst (checkPosition_p2 cfg env tk position l)}.
          closedTrades l' = closedTrades l \<and>
          tickerCooldowns l' = tickerCooldowns l \<and>
          positionMomentumMetrics l' = positionMomentumMetrics l \<and>
          map fst (positions l') = map fst (positions l) \<and>
          (\<forall>tk'. tk' \<noteq> tk \<longrightarrow> map_of (positions l') tk' = map_of (positions l) tk'))"
    unfolding k1 k2 by (simp add: mutatePosition_keys mutatePosition_other)
qed

text \<open>
  A position that \<open>openPosition\<close> stored has no watermark, and without one the
  pnl never counts as moved: the comparison is made with the current value.
\<close>

lemma unset_watermark_stays_unset:
  assumes "prices env = Some pr" "map_of (positions l) tk = Some position"
    and "exitRule cfg (calculatePnLPercentage position (priceFor position pr)) = None"
    and "lastLoggedPnLPercent position = None"
  shows "\<exists>p. map_of (positions (fst (checkPosition cfg env tk position l))) tk = Some p \<and>
             lastLoggedPnLPercent p = None"
    and "Log_PositionUpdate tk pl pp \<notin> set (snd (checkPosition cfg env tk position l))"
  using assms pnlMoved_unset [OF assms(4)]
  by (simp_all add: checkPosition_kept mutatePosition_stored)

theorem kept_position_frame_witness:
  "prices (pricedAt 40000 (141 / 10) (859 / 10)) = Some (Num (141 / 10), Num (859 / 10))
   \<and> map_of (positions ledgerKX) ''KX'' = Some positionKX
   \<and> Num (5 / 7) = calculatePnLPercentage positionKX (priceFor positionKX (Num (141 / 10), Num (859 / 10)))
   \<and> exitRule default_config (Num (5 / 7)) = None
   \<and> debugDue (pricedAt 40000 (141 / 10) (859 / 10)) positionKX
   \<and> \<not> pnlMoved positionKX (Num (5 / 7))
   \<and> checkPosition default_config (pricedAt 40000 (141 / 10) (859 / 10)) ''KX'' positionKX ledgerKX =
       (mutatePosition ''KX'' positionKX (positionKX\<lparr>lastDebugLogTime := Some 40200\<rparr>) ledgerKX,
        [Log_PositionDebug ''KX''])
   \<and> checkPosition_p2 default_config (pricedAt 40000 (141 / 10) (859 / 10)) ''KX'' positionKX ledgerKX =
       (ledgerKX, [])"
proof -
  have h: "prices (pricedAt 40000 (141 / 10) (859 / 10)) = Some (Num (141 / 10), Num (859 / 10))
     \<and> map_of (positions ledgerKX) ''KX'' = Some positionKX
     \<and> Num (5 / 7) = calculatePnLPercentage positionKX (priceFor positionKX (Num (141 / 10), Num (859 / 10)))
     \<and> exitRule default_config (Num (5 / 7)) = None"
    by code_simp
  have d: "debugDue (pricedAt 40000 (141 / 10) (859 / 10)) positionKX"
    "\<not> pnlMoved positionKX (Num (5 / 7))"
    "t_priced (pricedAt 40000 (141 / 10) (859 / 10)) = 40200"
    by code_simp+
  have same: "positionKX\<lparr>lastLoggedPnLPercent := lastLoggedPnLPercent positionKX\<rparr> = positionKX"
    "positionKX\<lparr>lastDebugLogTime := Some 40200,
                 lastLoggedPnLPercent := lastLoggedPnLPercent positionKX\<rparr> =
     positionKX\<lparr>lastDebugLogTime := Some 40200\<rparr>" by simp_all
  note t = kept_position_frame [where cfg = default_config
      and env = "pricedAt 40000 (141 / 10) (859 / 10)" and pr = "(Num (141 / 10), Num (859 / 10))"
      and l = ledgerKX and tk = "''KX''" and position = positionKX and q = "Num (5 / 7)",
      THEN mp, OF h]
  have c1: "checkPosition default_config (pricedAt 40000 (141 / 10) (859 / 10)) ''KX'' positionKX ledgerKX =
       (mutatePosition ''KX'' positionKX (positionKX\<lparr>lastDebugLogTime := Some 40200\<rparr>) ledgerKX,
        [Log_PositionDebug ''KX''])"
    using t [THEN conjunct1] d by (simp add: same)
  have c2: "checkPosition_p2 default_config (pricedAt 40000 (141 / 10) (859 / 10)) ''KX'' positionKX ledgerKX =
       (ledgerKX, [])"
    using t [THEN conjunct2, THEN conjunct1] d by (simp add: same mutatePosition_same)
  show ?thesis using h d c1 c2 by blast
qed

text \<open>
  In the newer variant a pass that neither closes the position nor moves the pnl
  watermark still changes the stored position: it sets \<open>lastDebugLogTime\<close>.
\<close>

theorem kept_position_frame_counterexample:
  "prices (pricedAt 40000 (141 / 10) (859 / 10)) = Some (Num (141 / 10), Num (859 / 10))
   \<and> map_of (positions ledgerKX) ''KX'' = Some positionKX
   \<and> exitRule default_config (calculatePnLPercentage positionKX (Num (141 / 10))) = None
   \<and> lastDebugLogTime positionKX = None
   \<and> map_of (positions (fst (checkPosition default_config (pricedAt 40000 (141 / 10) (859 / 10))
                               ''KX'' positionKX ledgerKX))) ''KX'' =
       Some (positionKX\<lparr>lastDebugLogTime := Some 40200\<rparr>)
   \<and> positionKX\<lparr>lastDebugLogTime := Some 40200\<rparr> \<noteq> positionKX
   \<and> lastLoggedPnLPercent (positionKX\<lparr>lastDebugLogTime := Some 40200\<rparr>) = lastLoggedPnLPercent positionKX"
  by code_simp

section \<open>Closing and cooldown: proofs\<close>




lemma openPosition_live_cooldowns [simp]:
  "tickerCooldowns (fst (snd (openPosition_live later ext trade metrics sd ep cn l))) = tickerCooldowns l"
  by (cases ext) (simp_all add: openPosition_live_def Let_def)







section \<open>Rejections of an open: proofs\<close>















section \<open>Signal evaluation: proofs\<close>








section \<open>Current price: proofs\<close>

lemma sidePrice_None: "sidePrice pf b a = None \<longleftrightarrow> \<not> truthy b \<and> \<not> truthy a"
  by (simp add: sidePrice_def Let_def)

lemma getCurrentPrice_cached:
  assumes "map_of marketCache tk = Some m"
  shows "getCurrentPrice pf marketCache tk response1 response2 =
           (marketPrices pf m, marketCache, [(False, False)])"
  using assms by (simp add: getCurrentPrice_def fetchMarket_def)

lemma getCurrentPrice_first:
  assumes "map_of marketCache tk = None" "response1 = HttpOk m"
  shows "getCurrentPrice pf marketCache tk response1 response2 =
           (marketPrices pf m, AList.update tk m marketCache, [(False, True)])"
  using assms by (simp add: getCurrentPrice_def fetchMarket_def)

lemma getCurrentPrice_retry:
  assumes "map_of marketCache tk = None" "\<forall>m. response1 \<noteq> HttpOk m"
  shows "getCurrentPrice pf marketCache tk response1 response2 =
           (case response2 of
              HttpOk m \<Rightarrow> (marketPrices pf m, AList.update tk m marketCache, [(False, True), (True, True)])
            | _ \<Rightarrow> (None, marketCache, [(False, True), (True, True)]))"
  using assms
  by (cases response1; cases response2) (simp_all add: getCurrentPrice_def fetchMarket_def)

text \<open>
  C8 (as amended). The price of a side is the average of its best bid and best
  ask, in cents, when both are quoted, the one that is quoted when only one is,
  and none when neither is. \<open>getCurrentPrice\<close> returns the two prices of the
  market it obtained when both sides have one, and null otherwise: also when the
  market was obtained and a side has no quote. The market is the cached one, else
  the one of the first fetch, else the one of a single second fetch that bypasses
  the cache; the second fetch is made exactly when the ticker is not cached and
  the first fetch returned no market, never because quotes are missing. Both
  variants have the same function.
\<close>

theorem current_price:
  "(truthy b \<and> truthy a \<longrightarrow>
      sidePrice pf b a =
        Some (js_div (js_add (js_mul (parseQuote pf b) (Num 100)) (js_mul (parseQuote pf a) (Num 100)))
                     (Num 2)))
   \<and> (truthy b \<and> \<not> truthy a \<longrightarrow> sidePrice pf b a = Some (js_mul (parseQuote pf b) (Num 100)))
   \<and> (\<not> truthy b \<and> truthy a \<longrightarrow> sidePrice pf b a = Some (js_mul (parseQuote pf a) (Num 100)))
   \<and> (sidePrice pf b a = None \<longleftrightarrow> \<not> truthy b \<and> \<not> truthy a)
   \<and> fst (getCurrentPrice pf marketCache tk response1 response2) =
       (case obtainedMarket marketCache tk response1 response2 of
          None \<Rightarrow> None
        | Some m \<Rightarrow>
            (case (sidePrice pf (yesBid m) (yesAsk m), sidePrice pf (noBid m) (noAsk m)) of
               (Some y, Some n) \<Rightarrow> Some (y, n)
             | _ \<Rightarrow> None))
   \<and> snd (snd (getCurrentPrice pf marketCache tk response1 response2)) =
       (if map_of marketCache tk \<noteq> None then [(False, False)]
        else case response1 of
               HttpOk m \<Rightarrow> [(False, True)]
             | _ \<Rightarrow> [(False, True), (True, True)])"
proof -
  have s: "(truthy b \<and> truthy a \<longrightarrow>
      sidePrice pf b a =
        Some (js_div (js_add (js_mul (parseQuote pf b) (Num 100)) (js_mul (parseQuote pf a) (Num 100)))
                     (Num 2)))
   \<and> (truthy b \<and> \<not> truthy a \<longrightarrow> sidePrice pf b a = Some (js_mul (parseQuote pf b) (Num 100)))
   \<and> (\<not> truthy b \<and> truthy a \<longrightarrow> sidePrice pf b a = Some (js_mul (parseQuote pf a) (Num 100)))
   \<and> (sidePrice pf b a = None \<longleftrightarrow> \<not> truthy b \<and> \<not> truthy a)"
    by (simp add: sidePrice_def Let_def)
  have g: "fst (getCurrentPrice pf marketCache tk response1 response2) =
       (case obtainedMarket marketCache tk response1 response2 of
          None \<Rightarrow> None
        | Some m \<Rightarrow>
            (case (sidePrice pf (yesBid m) (yesAsk m), sidePrice pf (noBid m) (noAsk m)) of
               (Some y, Some n) \<Rightarrow> Some (y, n)
             | _ \<Rightarrow> None))
   \<and> snd (snd (getCurrentPrice pf marketCache tk response1 response2)) =
       (if map_of marketCache tk \<noteq> None then [(False, False)]
        else case response1 of
               HttpOk m \<Rightarrow> [(False, True)]
             | _ \<Rightarrow> [(False, True), (True, True)])"
  proof (cases "map_of marketCache tk")
    case (Some m)
    then show ?thesis
      by (simp add: getCurrentPrice_cached obtainedMarket_def marketPrices_def Let_def)
  next
    case None
    show ?thesis
    proof (cases "\<exists>m. response1 = HttpOk m")
      case True
      then obtain m where "response1 = HttpOk m" by blast
      with None show ?thesis
        by (simp add: getCurrentPrice_first obtainedMarket_def marketPrices_def Let_def)
    next
      case False
      then have n: "\<forall>m. response1 \<noteq> HttpOk m" by simp
      show ?thesis
        using None n
        by (cases response1; cases response2)
           (simp_all add: getCurrentPrice_retry obtainedMarket_def marketPrices_def Let_def)
    qed
  qed
  from s g show ?thesis by (intro conjI) blast+
qed

text \<open>
  A market quoted 0.40 / 0.44 on the yes side and 0.55 bid only on the no side,
  obtained by the retry after a 404.
\<close>

theorem current_price_witness:
  "truthy (yesBid quotedMarket) \<and> truthy (yesAsk quotedMarket)
   \<and> truthy (noBid quotedMarket) \<and> \<not> truthy (noAsk quotedMarket)
   \<and> sidePrice exampleParseFloat (yesBid quotedMarket) (yesAsk quotedMarket) = Some (Num 42)
   \<and> sidePrice exampleParseFloat (noBid quotedMarket) (noAsk quotedMarket) = Some (Num 55)
   \<and> getCurrentPrice exampleParseFloat [] ''KX'' (HttpStatus 404) (HttpOk quotedMarket) =
       (Some (Num 42, Num 55), [(''KX'', quotedMarket)], [(False, True), (True, True)])"
proof -
  have h: "truthy (yesBid quotedMarket) \<and> truthy (yesAsk quotedMarket)"
    "truthy (noBid quotedMarket) \<and> \<not> truthy (noAsk quotedMarket)"
    by code_simp+
  have e: "js_div (js_add (js_mul (parseQuote exampleParseFloat (yesBid quotedMarket)) (Num 100))
                    (js_mul (parseQuote exampleParseFloat (yesAsk quotedMarket)) (Num 100))) (Num 2)
           = Num 42"
    "js_mul (parseQuote exampleParseFloat (noBid quotedMarket)) (Num 100) = Num 55"
    by code_simp+
  have c1: "sidePrice exampleParseFloat (yesBid quotedMarket) (yesAsk quotedMarket) = Some (Num 42)"
    using current_price [where pf = exampleParseFloat and b = "yesBid quotedMarket"
        and a = "yesAsk quotedMarket", THEN conjunct1] h e by simp
  have c2: "sidePrice exampleParseFloat (noBid quotedMarket) (noAsk quotedMarket) = Some (Num 55)"
    using current_price [where pf = exampleParseFloat and b = "noBid quotedMarket"
        and a = "noAsk quotedMarket", THEN conjunct2, THEN conjunct1] h e by simp
  have c3: "getCurrentPrice exampleParseFloat [] ''KX'' (HttpStatus 404) (HttpOk quotedMarket) =
       (Some (Num 42, Num 55), [(''KX'', quotedMarket)], [(False, True), (True, True)])"
    by code_simp
  show ?thesis using h c1 c2 c3 by blast
qed

text \<open>
  A market that is fetched at once but has no quote on either side: null is
  returned after the one request, with no retry.
\<close>

theorem current_price_counterexample:
  "\<not> truthy (yesBid unquotedMarket) \<and> \<not> truthy (yesAsk unquotedMarket)
   \<and> \<not> truthy (noBid unquotedMarket) \<and> \<not> truthy (noAsk unquotedMarket)
   \<and> getCurrentPrice exampleParseFloat [] ''KX'' (HttpOk unquotedMarket) (HttpOk quotedMarket) =
       (None, [(''KX'', unquotedMarket)], [(False, True)])"
  by code_simp


section \<open>Metrics: proofs\<close>

lemma js_gt_zero_cases: "js_gt x (Num 0) \<longleftrightarrow> x = PInf \<or> (\<exists>r. x = Num r \<and> 0 < r)"
  by (cases x) (simp_all add: js_gt_def)

lemma js_lt_zero_cases: "js_lt x (Num 0) \<longleftrightarrow> x = NInf \<or> (\<exists>r. x = Num r \<and> r < 0)"
  by (cases x) simp_all

lemma sumPnl_Nil [simp]: "sumPnl [] = Num 0"
  by (simp add: sumPnl_def)

text \<open>A sum of wins that starts from zero or from a positive value is positive.\<close>

lemma foldl_wins_positive:
  assumes "\<forall>t \<in> set ts. js_gt (pnl t) (Num 0)" "acc = Num 0 \<or> js_gt acc (Num 0)" "ts \<noteq> []"
  shows "js_gt (foldl (\<lambda>sum t. js_add sum (pnl t)) acc ts) (Num 0)"
  using assms
proof (induction ts arbitrary: acc)
  case Nil
  then show ?case by simp
next
  case (Cons t ts)
  have step: "js_gt (js_add acc (pnl t)) (Num 0)"
    using Cons.prems(1,2) by (auto simp: js_gt_zero_cases)
  show ?case
  proof (cases "ts = []")
    case True
    with step show ?thesis by simp
  next
    case False
    from Cons.IH [of "js_add acc (pnl t)"] Cons.prems(1) step False show ?thesis by simp
  qed
qed

lemma foldl_losses_negative:
  assumes "\<forall>t \<in> set ts. js_lt (pnl t) (Num 0)" "acc = Num 0 \<or> js_lt acc (Num 0)" "ts \<noteq> []"
  shows "js_lt (foldl (\<lambda>sum t. js_add sum (pnl t)) acc ts) (Num 0)"
  using assms
proof (induction ts arbitrary: acc)
  case Nil
  then show ?case by simp
next
  case (Cons t ts)
  have step: "js_lt (js_add acc (pnl t)) (Num 0)"
    using Cons.prems(1,2) by (auto simp: js_lt_zero_cases)
  show ?case
  proof (cases "ts = []")
    case True
    with step show ?thesis by simp
  next
    case False
    from Cons.IH [of "js_add acc (pnl t)"] Cons.prems(1) step False show ?thesis by simp
  qed
qed

lemma wins_sum_positive: "js_gt (sumPnl (winsOf cts)) (Num 0) \<longleftrightarrow> winsOf cts \<noteq> []"
proof (cases "winsOf cts = []")
  case True
  then show ?thesis by (simp add: js_gt_def)
next
  case False
  have "\<forall>t \<in> set (winsOf cts). js_gt (pnl t) (Num 0)" by (simp add: winsOf_def)
  from foldl_wins_positive [OF this _ False, of "Num 0"] False show ?thesis
    by (simp add: sumPnl_def)
qed

lemma losses_sum_positive: "js_gt (js_abs (sumPnl (lossesOf cts))) (Num 0) \<longleftrightarrow> lossesOf cts \<noteq> []"
proof (cases "lossesOf cts = []")
  case True
  then show ?thesis by (simp add: js_gt_def)
next
  case False
  have "\<forall>t \<in> set (lossesOf cts). js_lt (pnl t) (Num 0)" by (simp add: lossesOf_def)
  from foldl_losses_negative [OF this _ False, of "Num 0"]
  have "js_lt (sumPnl (lossesOf cts)) (Num 0)" by (simp add: sumPnl_def)
  then have "js_gt (js_abs (sumPnl (lossesOf cts))) (Num 0)"
    by (auto simp: js_lt_zero_cases js_gt_def)
  with False show ?thesis by simp
qed

text \<open>\<^verbatim>\<open>Math.max\<close> and \<^verbatim>\<open>Math.min\<close> of numbers other than NaN.\<close>

lemma js_le_refl: "x \<noteq> NaN \<Longrightarrow> js_le x x"
  by (simp add: js_le_def)

lemma js_lt_trans: "js_lt x y \<Longrightarrow> js_lt y z \<Longrightarrow> js_lt x z"
  by (cases x; cases y; cases z) simp_all

lemma js_le_trans: "js_le x y \<Longrightarrow> js_le y z \<Longrightarrow> js_le x z"
  using js_lt_trans by (auto simp: js_le_def)

lemma js_le_total: "x \<noteq> NaN \<Longrightarrow> y \<noteq> NaN \<Longrightarrow> js_lt x y \<or> js_le y x"
  by (cases x; cases y) (auto simp: js_le_def)

lemma js_max2_props:
  assumes "x \<noteq> NaN" "y \<noteq> NaN"
  shows "js_max2 x y \<in> {x, y}" "js_le x (js_max2 x y)" "js_le y (js_max2 x y)"
  using assms js_le_total [OF assms]
  by (auto simp: js_max2_def js_le_def)

lemma js_min2_props:
  assumes "x \<noteq> NaN" "y \<noteq> NaN"
  shows "js_min2 x y \<in> {x, y}" "js_le (js_min2 x y) x" "js_le (js_min2 x y) y"
  using assms js_le_total [OF assms(2,1)]
  by (auto simp: js_min2_def js_le_def)

lemma foldl_max:
  assumes "NaN \<notin> set xs" "acc \<noteq> NaN"
  shows "foldl js_max2 acc xs \<in> insert acc (set xs) \<and> js_le acc (foldl js_max2 acc xs) \<and>
         (\<forall>x \<in> set xs. js_le x (foldl js_max2 acc xs))"
  using assms
proof (induction xs arbitrary: acc)
  case Nil
  then show ?case by (simp add: js_le_refl)
next
  case (Cons x xs)
  from Cons.prems have nx: "x \<noteq> NaN" and nxs: "NaN \<notin> set xs" by auto
  note m = js_max2_props [OF Cons.prems(2) nx]
  from m(1) Cons.prems(2) nx have nm: "js_max2 acc x \<noteq> NaN" by auto
  note IH = Cons.IH [OF nxs nm]
  from IH m show ?case
    by (auto intro: js_le_trans)
qed

lemma foldl_min:
  assumes "NaN \<notin> set xs" "acc \<noteq> NaN"
  shows "foldl js_min2 acc xs \<in> insert acc (set xs) \<and> js_le (foldl js_min2 acc xs) acc \<and>
         (\<forall>x \<in> set xs. js_le (foldl js_min2 acc xs) x)"
  using assms
proof (induction xs arbitrary: acc)
  case Nil
  then show ?case by (simp add: js_le_refl)
next
  case (Cons x xs)
  from Cons.prems have nx: "x \<noteq> NaN" and nxs: "NaN \<notin> set xs" by auto
  note m = js_min2_props [OF Cons.prems(2) nx]
  from m(1) Cons.prems(2) nx have nm: "js_min2 acc x \<noteq> NaN" by auto
  note IH = Cons.IH [OF nxs nm]
  from IH m show ?case
    by (auto intro: js_le_trans)
qed

lemma Math_max_wins:
  assumes "winsOf cts \<noteq> []"
  shows "Math_max (map pnl (winsOf cts)) \<in> pnl ` set (winsOf cts)"
    and "\<forall>t \<in> set (winsOf cts). js_le (pnl t) (Math_max (map pnl (winsOf cts)))"
proof -
  have pos: "\<forall>t \<in> set (winsOf cts). js_gt (pnl t) (Num 0)" by (simp add: winsOf_def)
  then have nn: "NaN \<notin> set (map pnl (winsOf cts))" by (auto simp: js_gt_zero_cases)
  note f = foldl_max [OF nn, of NInf, simplified, folded Math_max_def]
  from f show "\<forall>t \<in> set (winsOf cts). js_le (pnl t) (Math_max (map pnl (winsOf cts)))" by simp
  from assms obtain t where t: "t \<in> set (winsOf cts)" by (cases "winsOf cts") auto
  with f have "js_le (pnl t) (Math_max (map pnl (winsOf cts)))" by simp
  moreover from pos t have "js_gt (pnl t) (Num 0)" by simp
  ultimately have "Math_max (map pnl (winsOf cts)) \<noteq> NInf"
    by (auto simp: js_le_def js_gt_zero_cases)
  with f show "Math_max (map pnl (winsOf cts)) \<in> pnl ` set (winsOf cts)" by auto
qed

lemma Math_min_losses:
  assumes "lossesOf cts \<noteq> []"
  shows "Math_min (map pnl (lossesOf cts)) \<in> pnl ` set (lossesOf cts)"
    and "\<forall>t \<in> set (lossesOf cts). js_le (Math_min (map pnl (lossesOf cts))) (pnl t)"
proof -
  have neg: "\<forall>t \<in> set (lossesOf cts). js_lt (pnl t) (Num 0)" by (simp add: lossesOf_def)
  then have nn: "NaN \<notin> set (map pnl (lossesOf cts))" by (auto simp: js_lt_zero_cases)
  note f = foldl_min [OF nn, of PInf, simplified, folded Math_min_def]
  from f show "\<forall>t \<in> set (lossesOf cts). js_le (Math_min (map pnl (lossesOf cts))) (pnl t)" by simp
  from assms obtain t where t: "t \<in> set (lossesOf cts)" by (cases "lossesOf cts") auto
  with f have "js_le (Math_min (map pnl (lossesOf cts))) (pnl t)" by simp
  moreover from neg t have "js_lt (pnl t) (Num 0)" by simp
  ultimately have "Math_min (map pnl (lossesOf cts)) \<noteq> PInf"
    by (auto simp: js_le_def js_lt_zero_cases)
  with f show "Math_min (map pnl (lossesOf cts)) \<in> pnl ` set (lossesOf cts)" by auto
qed

lemma foldl_finite_sum:
  assumes "\<forall>t \<in> set ts. \<exists>r. pnl t = Num r"
  shows "foldl (\<lambda>sum t. js_add sum (pnl t)) (Num a) ts = Num (a + sum_list (map finitePnl ts))"
  using assms
proof (induction ts arbitrary: a)
  case Nil
  then show ?case by simp
next
  case (Cons t ts)
  from Cons.prems obtain r where r: "pnl t = Num r" by auto
  from Cons.prems have "\<forall>t \<in> set ts. \<exists>r. pnl t = Num r" by simp
  from Cons.IH [OF this, of "a + r"] show ?case
    by (simp add: r finitePnl_def add.assoc)
qed

lemma sumPnl_finite:
  "\<forall>t \<in> set ts. \<exists>r. pnl t = Num r \<Longrightarrow> sumPnl ts = Num (sum_list (map finitePnl ts))"
  using foldl_finite_sum [of ts 0] by (simp add: sumPnl_def)

lemma getMetrics_nonempty:
  assumes "cts \<noteq> []"
  shows "getMetrics cts =
     \<lparr> totalTrades = length cts,
       winningTrades = length (winsOf cts),
       losingTrades = length (lossesOf cts),
       totalPnL = sumPnl cts,
       winRate = of_nat (length (winsOf cts)) / of_nat (length cts) * 100,
       avgWin = (if winsOf cts = [] then Num 0
                 else js_div (sumPnl (winsOf cts)) (Num (of_nat (length (winsOf cts))))),
       avgLoss = (if lossesOf cts = [] then Num 0
                  else js_div (js_abs (sumPnl (lossesOf cts)))
                         (Num (of_nat (length (lossesOf cts))))),
       profitFactor = (if lossesOf cts \<noteq> []
                       then js_div (sumPnl (winsOf cts)) (js_abs (sumPnl (lossesOf cts)))
                       else if winsOf cts \<noteq> [] then PInf else Num 0),
       largestWin = (if winsOf cts = [] then Num 0 else Math_max (map pnl (winsOf cts))),
       largestLoss = (if lossesOf cts = [] then Num 0 else Math_min (map pnl (lossesOf cts))) \<rparr>"
  using assms wins_sum_positive [of cts] losses_sum_positive [of cts]
  by (simp add: getMetrics_def Let_def winsOf_def [symmetric] lossesOf_def [symmetric])

text \<open>
  C10. \<open>getMetrics\<close> is a function of the closed trades alone. On no trades
  every metric is zero. Otherwise the number of trades is the length of the
  history, the winning trades are those with pnl above 0 and the losing trades
  those with pnl below 0, the total pnl is the sum of the pnl values (the sum of
  rationals when every pnl is finite), the win rate is wins over trades times
  100, the average win is the sum of the wins over their number and the average
  loss the magnitude of the sum of the losses over their number (0 when there is
  none), the profit factor is the sum of the wins over the magnitude of the sum of
  the losses when there is a loss, infinite when there are wins and no loss, and 0
  when there is neither, and the largest win and the largest loss are the greatest
  pnl of a win and the least pnl of a loss (0 when there is none).
\<close>

theorem metrics_reducer:
  "getMetrics [] =
     \<lparr> totalTrades = 0, winningTrades = 0, losingTrades = 0, totalPnL = Num 0, winRate = 0,
       avgWin = Num 0, avgLoss = Num 0, profitFactor = Num 0, largestWin = Num 0,
       largestLoss = Num 0 \<rparr>
   \<and> (cts \<noteq> [] \<longrightarrow>
        totalTrades (getMetrics cts) = length cts
      \<and> winningTrades (getMetrics cts) = length (winsOf cts)
      \<and> losingTrades (getMetrics cts) = length (lossesOf cts)
      \<and> totalPnL (getMetrics cts) = sumPnl cts
      \<and> ((\<forall>t \<in> set cts. \<exists>r. pnl t = Num r) \<longrightarrow>
            totalPnL (getMetrics cts) = Num (sum_list (map finitePnl cts)))
      \<and> winRate (getMetrics cts) = of_nat (length (winsOf cts)) / of_nat (length cts) * 100
      \<and> avgWin (getMetrics cts) =
          (if winsOf cts = [] then Num 0
           else js_div (sumPnl (winsOf cts)) (Num (of_nat (length (winsOf cts)))))
      \<and> avgLoss (getMetrics cts) =
          (if lossesOf cts = [] then Num 0
           else js_div (js_abs (sumPnl (lossesOf cts))) (Num (of_nat (length (lossesOf cts)))))
      \<and> profitFactor (getMetrics cts) =
          (if lossesOf cts \<noteq> []
           then js_div (sumPnl (winsOf cts)) (js_abs (sumPnl (lossesOf cts)))
           else if winsOf cts \<noteq> [] then PInf else Num 0)
      \<and> (if winsOf cts = [] then largestWin (getMetrics cts) = Num 0
          else largestWin (getMetrics cts) \<in> pnl ` set (winsOf cts) \<and>
               (\<forall>t \<in> set (winsOf cts). js_le (pnl t) (largestWin (getMetrics cts))))
      \<and> (if lossesOf cts = [] then largestLoss (getMetrics cts) = Num 0
          else largestLoss (getMetrics cts) \<in> pnl ` set (lossesOf cts) \<and>
               (\<forall>t \<in> set (lossesOf cts). js_le (largestLoss (getMetrics cts)) (pnl t))))"
proof (intro conjI impI)
  show "getMetrics [] =
     \<lparr> totalTrades = 0, winningTrades = 0, losingTrades = 0, totalPnL = Num 0, winRate = 0,
       avgWin = Num 0, avgLoss = Num 0, profitFactor = Num 0, largestWin = Num 0,
       largestLoss = Num 0 \<rparr>"
    by (simp add: getMetrics_def)
next
  assume ne: "cts \<noteq> []" and fin: "\<forall>t \<in> set cts. \<exists>r. pnl t = Num r"
  show "totalPnL (getMetrics cts) = Num (sum_list (map finitePnl cts))"
    by (simp add: getMetrics_nonempty [OF ne] sumPnl_finite [OF fin])
next
  assume ne: "cts \<noteq> []"
  show "if winsOf cts = [] then largestWin (getMetrics cts) = Num 0
          else largestWin (getMetrics cts) \<in> pnl ` set (winsOf cts) \<and>
               (\<forall>t \<in> set (winsOf cts). js_le (pnl t) (largestWin (getMetrics cts)))"
    using Math_max_wins [of cts] by (simp add: getMetrics_nonempty [OF ne])
next
  assume ne: "cts \<noteq> []"
  show "if lossesOf cts = [] then largestLoss (getMetrics cts) = Num 0
          else largestLoss (getMetrics cts) \<in> pnl ` set (lossesOf cts) \<and>
               (\<forall>t \<in> set (lossesOf cts). js_le (largestLoss (getMetrics cts)) (pnl t))"
    using Math_min_losses [of cts] by (simp add: getMetrics_nonempty [OF ne])
qed (simp_all add: getMetrics_nonempty)

text \<open>
  A win of 7 cents, a loss of 5 cents and a trade at break even; a single win;
  a single trade at break even.
\<close>

theorem metrics_reducer_witness:
  "mixedHistory \<noteq> []
   \<and> winsOf mixedHistory = [tradeWithPnl (Num (7 / 100))]
   \<and> lossesOf mixedHistory = [tradeWithPnl (Num (- 1 / 20))]
   \<and> totalTrades (getMetrics mixedHistory) = 3
   \<and> winningTrades (getMetrics mixedHistory) = 1
   \<and> losingTrades (getMetrics mixedHistory) = 1
   \<and> totalPnL (getMetrics mixedHistory) = Num (1 / 50)
   \<and> winRate (getMetrics mixedHistory) = 100 / 3
   \<and> avgWin (getMetrics mixedHistory) = Num (7 / 100)
   \<and> avgLoss (getMetrics mixedHistory) = Num (1 / 20)
   \<and> profitFactor (getMetrics mixedHistory) = Num (7 / 5)
   \<and> largestWin (getMetrics mixedHistory) = Num (7 / 100)
   \<and> largestLoss (getMetrics mixedHistory) = Num (- 1 / 20)
   \<and> [tradeWithPnl (Num (7 / 100))] \<noteq> []
   \<and> lossesOf [tradeWithPnl (Num (7 / 100))] = []
   \<and> profitFactor (getMetrics [tradeWithPnl (Num (7 / 100))]) = PInf
   \<and> profitFactor (getMetrics [tradeWithPnl (Num 0)]) = Num 0"
proof -
  have ne: "mixedHistory \<noteq> []" "[tradeWithPnl (Num (7 / 100))] \<noteq> []" "[tradeWithPnl (Num 0)] \<noteq> []"
    by (simp_all add: mixedHistory_def)
  have w: "winsOf mixedHistory = [tradeWithPnl (Num (7 / 100))]"
    "lossesOf mixedHistory = [tradeWithPnl (Num (- 1 / 20))]"
    "winsOf [tradeWithPnl (Num (7 / 100))] = [tradeWithPnl (Num (7 / 100))]"
    "lossesOf [tradeWithPnl (Num (7 / 100))] = []"
    "winsOf [tradeWithPnl (Num 0)] = []"
    "lossesOf [tradeWithPnl (Num 0)] = []"
    by code_simp+
  have ev: "length mixedHistory = 3" "sumPnl mixedHistory = Num (1 / 50)"
    "sumPnl [tradeWithPnl (Num (7 / 100))] = Num (7 / 100)"
    "js_abs (sumPnl [tradeWithPnl (Num (- 1 / 20))]) = Num (1 / 20)"
    "js_div (Num (7 / 100)) (Num (1 / 20)) = Num (7 / 5)"
    "pnl (tradeWithPnl (Num (7 / 100))) = Num (7 / 100)"
    "pnl (tradeWithPnl (Num (- 1 / 20))) = Num (- 1 / 20)"
    by code_simp+
  note a = metrics_reducer [where cts = mixedHistory, THEN conjunct2, THEN mp, OF ne(1)]
  note b = metrics_reducer [where cts = "[tradeWithPnl (Num (7 / 100))]", THEN conjunct2, THEN mp, OF ne(2)]
  note c = metrics_reducer [where cts = "[tradeWithPnl (Num 0)]", THEN conjunct2, THEN mp, OF ne(3)]
  have c0: "totalTrades (getMetrics mixedHistory) = 3"
    "winningTrades (getMetrics mixedHistory) = 1"
    "losingTrades (getMetrics mixedHistory) = 1"
    "totalPnL (getMetrics mixedHistory) = Num (1 / 50)"
    using a by (simp_all add: w ev)
  have c1: "winRate (getMetrics mixedHistory) = 100 / 3"
    "avgWin (getMetrics mixedHistory) = Num (7 / 100)"
    "avgLoss (getMetrics mixedHistory) = Num (1 / 20)"
    "profitFactor (getMetrics mixedHistory) = Num (7 / 5)"
    "largestWin (getMetrics mixedHistory) = Num (7 / 100)"
    "largestLoss (getMetrics mixedHistory) = Num (- 1 / 20)"
    using a by (simp_all add: w ev sumPnl_def tradeWithPnl_def)
  have c2: "profitFactor (getMetrics [tradeWithPnl (Num (7 / 100))]) = PInf"
    using b by (simp add: w)
  have c3: "profitFactor (getMetrics [tradeWithPnl (Num 0)]) = Num 0"
    using c by (simp add: w)
  show ?thesis using ne w c0 c1 c2 c3 by blast
qed

end
